theory Spec2Isabelle
  imports Complex_Main
begin

section \<open>Python values\<close>

text \<open>
  A Python \<open>str\<close> is a sequence of Unicode code points, so it is modelled as a list of
  naturals. \<open>lit\<close> turns an ASCII literal into that representation; the one non-ASCII
  character of the sources (U+2011, in the prompt template) is written as its code point.
\<close>

type_synonym pystr = "nat list"

definition lit :: "string \<Rightarrow> pystr" where
  "lit cs = map of_char cs"

text \<open>
  \<open>str.strip()\<close> without argument removes leading and trailing whitespace, that is the
  code points for which CPython's \<open>_PyUnicode_IsWhitespace\<close> holds.
\<close>

definition isspace :: "nat \<Rightarrow> bool" where
  "isspace c \<longleftrightarrow>
     (9 \<le> c \<and> c \<le> 13) \<or> (28 \<le> c \<and> c \<le> 32) \<or> c = 133 \<or> c = 160 \<or> c = 5760 \<or>
     (8192 \<le> c \<and> c \<le> 8202) \<or> c = 8232 \<or> c = 8233 \<or> c = 8239 \<or> c = 8287 \<or> c = 12288"

definition strip :: "pystr \<Rightarrow> pystr" where
  "strip s = rev (dropWhile isspace (rev (dropWhile isspace s)))"

text \<open>\<open>sep.join(parts)\<close>.\<close>

fun join :: "pystr \<Rightarrow> pystr list \<Rightarrow> pystr" where
  "join sep [] = []"
| "join sep [x] = x"
| "join sep (x # y # ys) = x @ sep @ join sep (y # ys)"

text \<open>\<open>str(i)\<close> for a non-negative integer: its decimal digits.\<close>

fun str_nat :: "nat \<Rightarrow> pystr" where
  "str_nat n = (if n < 10 then [48 + n] else str_nat (n div 10) @ [48 + n mod 10])"

declare str_nat.simps [simp del]

text \<open>
  The values that travel as tool arguments and tool results are JSON values. A dict is an
  association list in insertion order. Numbers carry an integer; no function of the program
  looks inside a number.
\<close>

datatype json =
    JNull
  | JBool bool
  | JNum int
  | JStr pystr
  | JList "json list"
  | JDict "(pystr \<times> json) list"

text \<open>
  The exceptions the program raises or meets. \<open>KeyError\<close> carries the message given to
  its constructor. \<open>TypeError_call f ks\<close> is the \<open>TypeError\<close> of a call \<open>f(**kwargs)\<close>
  whose keywords \<open>ks\<close> do not bind to the parameters of \<open>f\<close>; \<open>TypeError_len v\<close> is the
  one of \<open>len(v)\<close> on a value without a length; \<open>Error_slice v\<close> is the exception of
  \<open>v[:60]\<close> on a dict. \<open>APIStatusError\<close> stands for the class of that name of the
  provider's client and its subclasses, \<open>OtherException\<close> for any exception outside that
  class.
\<close>

datatype py_exception =
    KeyError pystr
  | TypeError_call pystr "pystr list"
  | TypeError_len json
  | Error_slice json
  | APIStatusError pystr
  | OtherException pystr

section \<open>app/sessions.py\<close>

text \<open>
  The provider's content blocks: a text block, a \<open>tool_use\<close> block with its \<open>id\<close>,
  \<open>name\<close> and \<open>input\<close>, or a block of any other type.
\<close>

datatype block =
    TextBlock pystr
  | ToolUseBlock pystr pystr "(pystr \<times> json) list"
  | OtherBlock

record tool_result_block =
  tr_type :: pystr
  tool_use_id :: pystr
  tr_content :: pystr

text \<open>
  A message is a dict with the keys \<open>role\<close> and \<open>content\<close>; the content is typed
  \<open>Any\<close> in the source, and is a string, the content blocks of a response, or a list of
  \<open>tool_result\<close> blocks.
\<close>

datatype content =
    Text pystr
  | Blocks "block list"
  | ToolResults "tool_result_block list"

record message =
  role :: pystr
  content :: content

text \<open>\<open>SessionManager._sessions\<close>: a dict from session id to the history list.\<close>

type_synonym sessions = "pystr \<rightharpoonup> message list"

definition init_sessions :: sessions where
  "init_sessions = Map.empty"

text \<open>\<open>self._sessions.setdefault(session_id, [])\<close>: the list, and the dict afterwards.\<close>

definition get_history :: "sessions \<Rightarrow> pystr \<Rightarrow> message list \<times> sessions" where
  "get_history s session_id =
     (case s session_id of
        None \<Rightarrow> ([], s(session_id \<mapsto> []))
      | Some history \<Rightarrow> (history, s))"

text \<open>
  \<open>history.append(...)\<close> works on the list held by the dict, so the dict's entry grows.
\<close>

definition append_user :: "sessions \<Rightarrow> pystr \<Rightarrow> pystr \<Rightarrow> sessions" where
  "append_user s session_id text =
     (let (history, s') = get_history s session_id
      in s'(session_id \<mapsto> history @ [\<lparr>role = lit ''user'', content = Text text\<rparr>]))"

definition append_assistant :: "sessions \<Rightarrow> pystr \<Rightarrow> pystr \<Rightarrow> sessions" where
  "append_assistant s session_id text =
     (let (history, s') = get_history s session_id
      in s'(session_id \<mapsto> history @ [\<lparr>role = lit ''assistant'', content = Text text\<rparr>]))"

section \<open>app/rag/prompt.py\<close>

definition NO_CONTEXT :: pystr where
  "NO_CONTEXT = lit ''NO CONTEXT RETRIEVED''"

definition prompt_head :: pystr where
  "prompt_head = concat (map (\<lambda>l. l @ [10])
     [[],
      lit ''You are **HelpBot**, a concise and friendly e'' @ [8209] @
        lit ''commerce customer support agent.'',
      [],
      lit ''Capabilities:'',
      lit ''- Answer user questions about orders, returns, shipping, and payments.'',
      lit ''- Use the retrieved knowledge base context below when relevant.'',
      lit ''- May call tools (get_order_status, send_email) when they help answer the query.'',
      [],
      lit ''Grounding Rules:'',
      lit ''1. Prefer information from the *Retrieved Context* section. If the answer is directly'',
      lit ''   present there, summarize it in your own words.'',
      lit ''2. If the user requests an action that maps to a tool, call the appropriate tool.'',
      lit ''3. If context is empty or does not contain the answer, you may still answer from'',
      lit ''   general reasoning, but clearly say when something is not found.'',
      lit ''4. Before calling a tool, ensure required parameters are present. If missing,'',
      lit ''   ask the user to provide them.'',
      lit ''5. After receiving tool output, incorporate it into a natural language reply.'',
      [],
      lit ''Retrieved Context:'',
      lit ''------------------''])"

definition prompt_tail :: pystr where
  "prompt_tail = concat (map (\<lambda>l. l @ [10])
     [[],
      [],
      lit ''Respond helpfully. If clarification is needed, ask a follow'' @ [8209] @
        lit ''up question.'',
      lit ''Do **not** invent order IDs or email addresses.''])"

text \<open>
  The f-string of \<open>build_system_prompt\<close>: the template around
  \<open>context_block or 'NO CONTEXT RETRIEVED'\<close>; an empty string is falsy.
\<close>

definition build_system_prompt :: "pystr \<Rightarrow> pystr" where
  "build_system_prompt context_block =
     prompt_head @ (if context_block = [] then NO_CONTEXT else context_block) @ prompt_tail"

section \<open>app/rag/tools.py\<close>

text \<open>
  \<open>get_order_status(order_id)\<close>. The argument \<open>today\<close> stands for \<open>str(date.today())\<close>.
\<close>

definition get_order_status :: "pystr \<Rightarrow> json \<Rightarrow> json" where
  "get_order_status today order_id =
     JDict [(lit ''order_id'', order_id),
            (lit ''status'', JStr (lit ''shipped'')),
            (lit ''estimated_delivery'', JStr today),
            (lit ''carrier'', JStr (lit ''Acme Logistics''))]"

text \<open>
  \<open>send_email(recipient_email, message)\<close>. The logging call evaluates \<open>len(message)\<close>,
  which raises on a value without a length; \<open>message[:60]\<close> is the first 60 characters of
  a string or the first 60 elements of a list, and raises on a dict.
\<close>

definition send_email :: "json \<Rightarrow> json \<Rightarrow> py_exception + json" where
  "send_email recipient_email message =
     (case message of
        JStr m \<Rightarrow> Inr (JDict [(lit ''success'', JBool True),
                                (lit ''recipient'', recipient_email),
                                (lit ''message_preview'', JStr (take 60 m)),
                                (lit ''detail'', JStr (lit ''Email sent (simulated).''))])
      | JList xs \<Rightarrow> Inr (JDict [(lit ''success'', JBool True),
                                  (lit ''recipient'', recipient_email),
                                  (lit ''message_preview'', JList (take 60 xs)),
                                  (lit ''detail'', JStr (lit ''Email sent (simulated).''))])
      | JDict d \<Rightarrow> Inl (Error_slice message)
      | _ \<Rightarrow> Inl (TypeError_len message))"

text \<open>
  Binding the keywords of a call \<open>f(**kwargs)\<close> to parameters that are all required: each
  parameter takes the value of its keyword, and no keyword may be left over. The result is
  the values in parameter order, or \<open>None\<close> where Python raises \<open>TypeError\<close>.
\<close>

fun bind :: "pystr list \<Rightarrow> (pystr \<times> json) list \<Rightarrow> json list option" where
  "bind [] kwargs = (if kwargs = [] then Some [] else None)"
| "bind (p # ps) kwargs =
     (case map_of kwargs p of
        None \<Rightarrow> None
      | Some v \<Rightarrow> map_option ((#) v) (bind ps (filter (\<lambda>kv. fst kv \<noteq> p) kwargs)))"

text \<open>The two tool functions as callables that take keyword arguments.\<close>

definition call_get_order_status :: "pystr \<Rightarrow> (pystr \<times> json) list \<Rightarrow> py_exception + json" where
  "call_get_order_status today kwargs =
     (case bind [lit ''order_id''] kwargs of
        Some [order_id] \<Rightarrow> Inr (get_order_status today order_id)
      | _ \<Rightarrow> Inl (TypeError_call (lit ''get_order_status'') (map fst kwargs)))"

definition call_send_email :: "pystr \<Rightarrow> (pystr \<times> json) list \<Rightarrow> py_exception + json" where
  "call_send_email today kwargs =
     (case bind [lit ''recipient_email'', lit ''message''] kwargs of
        Some [recipient_email, message] \<Rightarrow> send_email recipient_email message
      | _ \<Rightarrow> Inl (TypeError_call (lit ''send_email'') (map fst kwargs)))"

definition TOOL_FUNCTIONS ::
    "(pystr \<times> (pystr \<Rightarrow> (pystr \<times> json) list \<Rightarrow> py_exception + json)) list" where
  "TOOL_FUNCTIONS =
     [(lit ''get_order_status'', call_get_order_status),
      (lit ''send_email'', call_send_email)]"

record property_spec =
  prop_type :: pystr
  prop_description :: pystr

record schema =
  schema_type :: pystr
  properties :: "(pystr \<times> property_spec) list"
  required :: "pystr list"

record tool_spec =
  name :: pystr
  description :: pystr
  input_schema :: schema

definition get_tool_specs :: "tool_spec list" where
  "get_tool_specs =
     [\<lparr>name = lit ''get_order_status'',
       description = lit ''Look up the current shipping status for a specific order_id.'',
       input_schema =
         \<lparr>schema_type = lit ''object'',
          properties =
            [(lit ''order_id'',
              \<lparr>prop_type = lit ''string'',
               prop_description = lit ''Opaque identifier of the order.''\<rparr>)],
          required = [lit ''order_id'']\<rparr>\<rparr>,
      \<lparr>name = lit ''send_email'',
       description = lit ''Send an email message to a recipient (simulated).'',
       input_schema =
         \<lparr>schema_type = lit ''object'',
          properties =
            [(lit ''recipient_email'',
              \<lparr>prop_type = lit ''string'',
               prop_description = lit ''Destination email address.''\<rparr>),
             (lit ''message'',
              \<lparr>prop_type = lit ''string'',
               prop_description = lit ''Plain text content to send.''\<rparr>)],
          required = [lit ''recipient_email'', lit ''message'']\<rparr>\<rparr>]"

text \<open>
  \<open>execute_tool(name, arguments)\<close>: \<open>KeyError\<close> for a name outside the table, otherwise
  \<open>func(**arguments)\<close>.
\<close>

definition execute_tool ::
    "pystr \<Rightarrow> pystr \<Rightarrow> (pystr \<times> json) list \<Rightarrow> py_exception + json" where
  "execute_tool today nm arguments =
     (case map_of TOOL_FUNCTIONS nm of
        None \<Rightarrow> Inl (KeyError (lit ''Unknown tool: '' @ nm))
      | Some func \<Rightarrow> func today arguments)"

section \<open>app/rag/retriever.py\<close>

text \<open>One result of \<open>retrieve\<close>: a dict with the keys \<open>text\<close>, \<open>score\<close>, \<open>metadata\<close>.\<close>

record hit =
  hit_text :: pystr
  hit_score :: real
  hit_metadata :: json

text \<open>
  What the program takes from outside: the vector store behind \<open>retrieve\<close> and the
  provider behind \<open>anthropic_client.messages.create\<close>, either of which may raise; the
  date; and the built-ins that render a value as text (\<open>str\<close> of an exception, \<open>str\<close>
  of a tool result, the \<open>:.4f\<close> format of a score).
\<close>

record tool_call =
  call_name :: pystr
  call_arguments :: "(pystr \<times> json) list"
  call_result :: json

record llm_request =
  model :: pystr
  max_tokens :: nat
  system :: pystr
  messages :: "message list"
  tools :: "tool_spec list option"

record env =
  retrieve :: "pystr \<Rightarrow> nat \<Rightarrow> py_exception + hit list"
  messages_create :: "llm_request \<Rightarrow> py_exception + block list"
  today :: pystr
  str_exc :: "py_exception \<Rightarrow> pystr"
  str_result :: "json \<Rightarrow> pystr"
  format_score :: "real \<Rightarrow> pystr"

text \<open>The loop of \<open>build_context\<close> over \<open>enumerate(hits, start=1)\<close>.\<close>

fun context_parts :: "(real \<Rightarrow> pystr) \<Rightarrow> nat \<Rightarrow> hit list \<Rightarrow> pystr list" where
  "context_parts fmt i [] = []"
| "context_parts fmt i (h # hs) =
     (lit ''[Document '' @ str_nat i @ lit '' | score='' @ fmt (hit_score h) @ lit '']'' @
        [10] @ hit_text h)
     # context_parts fmt (Suc i) hs"

definition build_context :: "env \<Rightarrow> pystr \<Rightarrow> nat \<Rightarrow> py_exception + pystr" where
  "build_context e query k =
     (case retrieve e query k of
        Inl exc \<Rightarrow> Inl exc
      | Inr hits \<Rightarrow> Inr (join [10, 10] (context_parts (format_score e) 1 hits)))"

section \<open>app/main.py\<close>

definition ANTHROPIC_MODEL :: pystr where
  "ANTHROPIC_MODEL = lit ''claude-3-5-sonnet-20240620''"

definition MAX_TOKENS :: nat where
  "MAX_TOKENS = 500"

text \<open>The calls on the outside world, in the order they are made.\<close>

datatype event =
    Retrieved pystr nat
  | Created llm_request
  | Executed pystr "(pystr \<times> json) list"

definition format_history_for_llm :: "message list \<Rightarrow> message list" where
  "format_history_for_llm history = map (\<lambda>m. \<lparr>role = role m, content = content m\<rparr>) history"

fun collect_texts :: "block list \<Rightarrow> pystr list" where
  "collect_texts [] = []"
| "collect_texts (TextBlock t # bs) = t # collect_texts bs"
| "collect_texts (b # bs) = collect_texts bs"

definition extract_text_from_blocks :: "block list \<Rightarrow> pystr" where
  "extract_text_from_blocks blocks = strip (join [10] (collect_texts blocks))"

text \<open>The \<open>try\<close> around \<open>execute_tool\<close>: any exception becomes \<open>{"error": str(exc)}\<close>.\<close>

definition try_execute_tool :: "env \<Rightarrow> pystr \<Rightarrow> (pystr \<times> json) list \<Rightarrow> json" where
  "try_execute_tool e nm inp =
     (case execute_tool (today e) nm inp of
        Inr result \<Rightarrow> result
      | Inl exc \<Rightarrow> JDict [(lit ''error'', JStr (str_exc e exc))])"

text \<open>
  The loop over \<open>first_response.content\<close>, with \<open>tool_calls\<close>, \<open>tool_results_blocks\<close>
  and the calls made so far as accumulators.
\<close>

fun tool_loop ::
    "env \<Rightarrow> block list \<Rightarrow> tool_call list \<times> tool_result_block list \<times> event list
       \<Rightarrow> tool_call list \<times> tool_result_block list \<times> event list" where
  "tool_loop e [] acc = acc"
| "tool_loop e (ToolUseBlock bid nm inp # bs) (tool_calls, tool_results_blocks, trace) =
     (let result = try_execute_tool e nm inp
      in tool_loop e bs
           (tool_calls @ [\<lparr>call_name = nm, call_arguments = inp, call_result = result\<rparr>],
            tool_results_blocks @
              [\<lparr>tr_type = lit ''tool_result'', tool_use_id = bid,
                tr_content = str_result e result\<rparr>],
            trace @ [Executed nm inp]))"
| "tool_loop e (b # bs) acc = tool_loop e bs acc"

record chat_result =
  answer :: pystr
  tool_calls :: "tool_call list"

definition first_request :: "pystr \<Rightarrow> message list \<Rightarrow> llm_request" where
  "first_request system_prompt msgs =
     \<lparr>model = ANTHROPIC_MODEL, max_tokens = MAX_TOKENS, system = system_prompt,
      messages = msgs, tools = Some get_tool_specs\<rparr>"

definition followup_request ::
    "pystr \<Rightarrow> message list \<Rightarrow> block list \<Rightarrow> tool_result_block list \<Rightarrow> llm_request" where
  "followup_request system_prompt msgs first_content tool_results_blocks =
     \<lparr>model = ANTHROPIC_MODEL, max_tokens = MAX_TOKENS, system = system_prompt,
      messages = msgs @
        [\<lparr>role = lit ''assistant'', content = Blocks first_content\<rparr>,
         \<lparr>role = lit ''user'', content = ToolResults tool_results_blocks\<rparr>],
      tools = None\<rparr>"

text \<open>
  \<open>_run_llm_with_tools\<close>: the returned dict or the exception that escapes, and the calls
  made.
\<close>

definition run_llm_with_tools ::
    "env \<Rightarrow> pystr \<Rightarrow> message list \<Rightarrow> (py_exception + chat_result) \<times> event list" where
  "run_llm_with_tools e system_prompt msgs =
     (let req1 = first_request system_prompt msgs
      in case messages_create e req1 of
           Inl exc \<Rightarrow> (Inl exc, [Created req1])
         | Inr first_content \<Rightarrow>
             (let (tool_calls, tool_results_blocks, trace) =
                    tool_loop e first_content ([], [], [Created req1])
              in if tool_results_blocks \<noteq> [] then
                   (let req2 = followup_request system_prompt msgs first_content
                                 tool_results_blocks
                    in case messages_create e req2 of
                         Inl exc \<Rightarrow> (Inl exc, trace @ [Created req2])
                       | Inr second_content \<Rightarrow>
                           (Inr \<lparr>answer = extract_text_from_blocks second_content,
                                 tool_calls = tool_calls\<rparr>,
                            trace @ [Created req2]))
                 else
                   (Inr \<lparr>answer = extract_text_from_blocks first_content,
                         tool_calls = tool_calls\<rparr>,
                    trace)))"

record chat_request =
  session_id :: pystr
  message :: pystr

text \<open>
  What \<open>chat\<close> raises: an \<open>HTTPException\<close> with status code and detail, or an exception
  it does not handle, which leaves the function as it is.
\<close>

datatype chat_error =
    HTTPException nat pystr
  | Unhandled py_exception

text \<open>
  \<open>chat\<close>: the response or the exception, the sessions afterwards, and the calls made.
\<close>

definition chat ::
    "env \<Rightarrow> sessions \<Rightarrow> chat_request \<Rightarrow> (chat_error + chat_result) \<times> sessions \<times> event list" where
  "chat e s req =
     (if strip (message req) = [] then
        (Inl (HTTPException 400 (lit ''Message cannot be empty.'')), s, [])
      else
        (let s1 = append_user s (session_id req) (message req)
         in case build_context e (message req) 3 of
              Inl exc \<Rightarrow> (Inl (Unhandled exc), s1, [Retrieved (message req) 3])
            | Inr context_block \<Rightarrow>
                (let system_prompt = build_system_prompt context_block;
                     (history, s2) = get_history s1 (session_id req);
                     msgs = format_history_for_llm history
                 in case run_llm_with_tools e system_prompt msgs of
                      (Inl (APIStatusError m), trace) \<Rightarrow>
                        (Inl (HTTPException 500
                                (lit ''Anthropic API error: '' @ str_exc e (APIStatusError m))),
                         s2, Retrieved (message req) 3 # trace)
                    | (Inl exc, trace) \<Rightarrow>
                        (Inl (Unhandled exc), s2, Retrieved (message req) 3 # trace)
                    | (Inr result, trace) \<Rightarrow>
                        (Inr \<lparr>answer = answer result, tool_calls = tool_calls result\<rparr>,
                         append_assistant s2 (session_id req) (answer result),
                         Retrieved (message req) 3 # trace))))"

text \<open>A sequence of turns, each with the outside world it meets.\<close>

fun chats :: "sessions \<Rightarrow> (env \<times> chat_request) list \<Rightarrow> sessions" where
  "chats s [] = s"
| "chats s ((e, req) # turns) = chats (fst (snd (chat e s req))) turns"

section \<open>Notions used to state the properties\<close>

text \<open>The \<open>tool_use\<close> blocks of a response, in order: id, name and input of each.\<close>

fun tool_uses :: "block list \<Rightarrow> (pystr \<times> pystr \<times> (pystr \<times> json) list) list" where
  "tool_uses [] = []"
| "tool_uses (ToolUseBlock bid nm inp # bs) = (bid, nm, inp) # tool_uses bs"
| "tool_uses (b # bs) = tool_uses bs"

text \<open>
  The \<open>tool_calls\<close> entry, the \<open>tool_result\<close> block and the call on the registry that
  belong to one \<open>tool_use\<close> block.
\<close>

definition call_of :: "env \<Rightarrow> pystr \<times> pystr \<times> (pystr \<times> json) list \<Rightarrow> tool_call" where
  "call_of e u =
     (case u of (bid, nm, inp) \<Rightarrow>
        \<lparr>call_name = nm, call_arguments = inp, call_result = try_execute_tool e nm inp\<rparr>)"

definition result_block_of ::
    "env \<Rightarrow> pystr \<times> pystr \<times> (pystr \<times> json) list \<Rightarrow> tool_result_block" where
  "result_block_of e u =
     (case u of (bid, nm, inp) \<Rightarrow>
        \<lparr>tr_type = lit ''tool_result'', tool_use_id = bid,
         tr_content = str_result e (try_execute_tool e nm inp)\<rparr>)"

definition executed_of :: "pystr \<times> pystr \<times> (pystr \<times> json) list \<Rightarrow> event" where
  "executed_of u = (case u of (bid, nm, inp) \<Rightarrow> Executed nm inp)"

text \<open>The history of a session as \<open>get_history\<close> returns it.\<close>

definition history_of :: "sessions \<Rightarrow> pystr \<Rightarrow> message list" where
  "history_of s sid = fst (get_history s sid)"

text \<open>The messages and the first request of the turn that \<open>chat\<close> runs for a request.\<close>

definition turn_messages :: "sessions \<Rightarrow> chat_request \<Rightarrow> message list" where
  "turn_messages s req =
     format_history_for_llm
       (history_of (append_user s (session_id req) (message req)) (session_id req))"

definition turn_request :: "sessions \<Rightarrow> chat_request \<Rightarrow> pystr \<Rightarrow> llm_request" where
  "turn_request s req context_block =
     first_request (build_system_prompt context_block) (turn_messages s req)"

definition turn_followup ::
    "env \<Rightarrow> sessions \<Rightarrow> chat_request \<Rightarrow> pystr \<Rightarrow> block list \<Rightarrow> llm_request" where
  "turn_followup e s req context_block first_content =
     followup_request (build_system_prompt context_block) (turn_messages s req) first_content
       (map (result_block_of e) (tool_uses first_content))"

text \<open>The keys of the arguments match a schema: every required key, and no undeclared one.\<close>

definition keys_match :: "schema \<Rightarrow> (pystr \<times> json) list \<Rightarrow> bool" where
  "keys_match sch arguments \<longleftrightarrow>
     set (required sch) \<subseteq> set (map fst arguments) \<and>
     set (map fst arguments) \<subseteq> set (map fst (properties sch))"

text \<open>A stored message that carries a role of the conversation and plain text only.\<close>

definition plain_message :: "message \<Rightarrow> bool" where
  "plain_message m \<longleftrightarrow>
     (role m = lit ''user'' \<or> role m = lit ''assistant'') \<and>
     (case content m of Text t \<Rightarrow> True | Blocks bs \<Rightarrow> False | ToolResults rs \<Rightarrow> False)"

text \<open>A sequence of appends on one session: \<open>True\<close> for the user, \<open>False\<close> for the assistant.\<close>

fun append_all :: "sessions \<Rightarrow> pystr \<Rightarrow> (bool \<times> pystr) list \<Rightarrow> sessions" where
  "append_all s sid [] = s"
| "append_all s sid ((u, t) # xs) =
     append_all (if u then append_user s sid t else append_assistant s sid t) sid xs"

definition appended :: "bool \<times> pystr \<Rightarrow> message" where
  "appended x = \<lparr>role = (if fst x then lit ''user'' else lit ''assistant''), content = Text (snd x)\<rparr>"

text \<open>How \<open>chat\<close> reports an exception of the provider.\<close>

definition provider_failure :: "env \<Rightarrow> py_exception \<Rightarrow> chat_error" where
  "provider_failure e exc =
     (case exc of
        APIStatusError m \<Rightarrow>
          HTTPException 500 (lit ''Anthropic API error: '' @ str_exc e (APIStatusError m))
      | _ \<Rightarrow> Unhandled exc)"

text \<open>The completion requests and the tool executions of a trace, each in order.\<close>

fun completions :: "event list \<Rightarrow> llm_request list" where
  "completions [] = []"
| "completions (Created r # evs) = r # completions evs"
| "completions (ev # evs) = completions evs"

fun executions :: "event list \<Rightarrow> (pystr \<times> (pystr \<times> json) list) list" where
  "executions [] = []"
| "executions (Executed nm inp # evs) = (nm, inp) # executions evs"
| "executions (ev # evs) = executions evs"

section \<open>Sample surroundings\<close>

text \<open>
  Concrete outside worlds on which the properties below are exercised: a vector store
  without hits and one that cannot be reached, and providers that answer in text, ask for
  the order tool, ask for a tool that does not exist, fail on the follow-up, or answer
  without any text.
\<close>

definition sample_str_exc :: "py_exception \<Rightarrow> pystr" where
  "sample_str_exc exc =
     (case exc of
        KeyError m \<Rightarrow> [39] @ m @ [39]
      | TypeError_call f ks \<Rightarrow> f @ lit ''() got unexpected keyword arguments''
      | TypeError_len v \<Rightarrow> lit ''object has no len()''
      | Error_slice v \<Rightarrow> lit ''slice''
      | APIStatusError m \<Rightarrow> m
      | OtherException m \<Rightarrow> m)"

definition sample_str_result :: "json \<Rightarrow> pystr" where
  "sample_str_result v = (case v of JDict d \<Rightarrow> join (lit '', '') (map fst d) | _ \<Rightarrow> [])"

definition sample_env ::
    "(pystr \<Rightarrow> nat \<Rightarrow> py_exception + hit list) \<Rightarrow> (llm_request \<Rightarrow> py_exception + block list)
       \<Rightarrow> env" where
  "sample_env r c =
     \<lparr>retrieve = r, messages_create = c, today = lit ''2025-07-01'',
      str_exc = sample_str_exc, str_result = sample_str_result,
      format_score = (\<lambda>x. lit ''0.0000'')\<rparr>"

definition no_hits :: "pystr \<Rightarrow> nat \<Rightarrow> py_exception + hit list" where
  "no_hits q k = Inr []"

definition store_offline :: "pystr \<Rightarrow> nat \<Rightarrow> py_exception + hit list" where
  "store_offline q k = Inl (OtherException (lit ''Collection knowledge does not exist.''))"

definition order_use :: block where
  "order_use =
     ToolUseBlock (lit ''toolu_02'') (lit ''get_order_status'')
       [(lit ''order_id'', JStr (lit ''123''))]"

definition unknown_use :: block where
  "unknown_use = ToolUseBlock (lit ''toolu_01'') (lit ''unknown_tool'') []"

definition text_llm :: "llm_request \<Rightarrow> py_exception + block list" where
  "text_llm r = Inr [TextBlock (lit ''Hello!'')]"

definition order_llm :: "llm_request \<Rightarrow> py_exception + block list" where
  "order_llm r =
     (if tools r = None then Inr [TextBlock (lit ''Your order 123 has shipped.'')]
      else Inr [order_use])"

definition unknown_tool_llm :: "llm_request \<Rightarrow> py_exception + block list" where
  "unknown_tool_llm r =
     (if tools r = None then Inr [TextBlock (lit ''I could not do that.'')]
      else Inr [TextBlock (lit ''Let me check.''), unknown_use, order_use])"

definition failing_followup_llm :: "llm_request \<Rightarrow> py_exception + block list" where
  "failing_followup_llm r =
     (if tools r = None then Inl (APIStatusError (lit ''overloaded''))
      else Inr [order_use])"

definition unreachable_llm :: "llm_request \<Rightarrow> py_exception + block list" where
  "unreachable_llm r = Inl (OtherException (lit ''Connection error.''))"

definition silent_llm :: "llm_request \<Rightarrow> py_exception + block list" where
  "silent_llm r = Inr [OtherBlock]"

definition s1_request :: "pystr \<Rightarrow> chat_request" where
  "s1_request m = \<lparr>session_id = lit ''s1'', message = m\<rparr>"

section \<open>The session store\<close>

lemma history_of_eq: "history_of s sid = (case s sid of None \<Rightarrow> [] | Some h \<Rightarrow> h)"
  by (simp add: history_of_def get_history_def split: option.splits)

lemma append_user_same:
  "append_user s sid t sid = Some (history_of s sid @ [\<lparr>role = lit ''user'', content = Text t\<rparr>])"
  by (simp add: append_user_def history_of_def get_history_def split: option.splits)

lemma append_user_other: "sid' \<noteq> sid \<Longrightarrow> append_user s sid t sid' = s sid'"
  by (simp add: append_user_def get_history_def split: option.splits)

lemma append_assistant_same:
  "append_assistant s sid t sid =
     Some (history_of s sid @ [\<lparr>role = lit ''assistant'', content = Text t\<rparr>])"
  by (simp add: append_assistant_def history_of_def get_history_def split: option.splits)

lemma append_assistant_other: "sid' \<noteq> sid \<Longrightarrow> append_assistant s sid t sid' = s sid'"
  by (simp add: append_assistant_def get_history_def split: option.splits)

lemma get_history_append_user:
  "get_history (append_user s sid t) sid =
     (history_of s sid @ [\<lparr>role = lit ''user'', content = Text t\<rparr>], append_user s sid t)"
  by (simp add: get_history_def append_user_same)

lemma history_of_append_user:
  "history_of (append_user s sid t) sid =
     history_of s sid @ [\<lparr>role = lit ''user'', content = Text t\<rparr>]"
  by (simp add: history_of_def get_history_append_user)

lemma history_of_append_assistant:
  "history_of (append_assistant s sid t) sid =
     history_of s sid @ [\<lparr>role = lit ''assistant'', content = Text t\<rparr>]"
  by (simp add: history_of_eq append_assistant_same)

lemma message_rebuild: "\<lparr>role = role m, content = content m\<rparr> = (m::message)"
  by (cases m) simp

lemma format_history_for_llm_id: "format_history_for_llm h = h"
  by (simp add: format_history_for_llm_def message_rebuild)

section \<open>One turn\<close>

lemma tool_loop_eq:
  "tool_loop e bs (tcs, trs, tr) =
     (tcs @ map (call_of e) (tool_uses bs),
      trs @ map (result_block_of e) (tool_uses bs),
      tr @ map executed_of (tool_uses bs))"
proof (induction bs arbitrary: tcs trs tr)
  case Nil
  show ?case by simp
next
  case (Cons b bs)
  show ?case
    by (cases b) (simp_all add: Cons.IH call_of_def result_block_of_def executed_of_def Let_def)
qed

lemma run_llm_with_tools_failed_first:
  "messages_create e (first_request sp msgs) = Inl exc \<Longrightarrow>
   run_llm_with_tools e sp msgs = (Inl exc, [Created (first_request sp msgs)])"
  by (simp add: run_llm_with_tools_def)

lemma run_llm_with_tools_no_tools:
  "messages_create e (first_request sp msgs) = Inr c1 \<Longrightarrow> tool_uses c1 = [] \<Longrightarrow>
   run_llm_with_tools e sp msgs =
     (Inr \<lparr>answer = extract_text_from_blocks c1, tool_calls = []\<rparr>,
      [Created (first_request sp msgs)])"
  by (simp add: run_llm_with_tools_def tool_loop_eq)

lemma run_llm_with_tools_tools:
  "messages_create e (first_request sp msgs) = Inr c1 \<Longrightarrow> tool_uses c1 \<noteq> [] \<Longrightarrow>
   run_llm_with_tools e sp msgs =
     (case messages_create e
             (followup_request sp msgs c1 (map (result_block_of e) (tool_uses c1))) of
        Inl exc \<Rightarrow> Inl exc
      | Inr c2 \<Rightarrow> Inr \<lparr>answer = extract_text_from_blocks c2,
                      tool_calls = map (call_of e) (tool_uses c1)\<rparr>,
      Created (first_request sp msgs) # map executed_of (tool_uses c1) @
        [Created (followup_request sp msgs c1 (map (result_block_of e) (tool_uses c1)))])"
  by (simp add: run_llm_with_tools_def tool_loop_eq split: sum.splits)

lemma chat_result_rebuild:
  "\<lparr>answer = answer r, tool_calls = tool_calls r\<rparr> = (r::chat_result)"
  by (cases r) simp

lemma build_context_failed:
  "retrieve e q k = Inl exc \<Longrightarrow> build_context e q k = Inl exc"
  by (simp add: build_context_def)

lemma chat_no_context:
  "strip (message req) \<noteq> [] \<Longrightarrow> build_context e (message req) 3 = Inl exc \<Longrightarrow>
   chat e s req =
     (Inl (Unhandled exc), append_user s (session_id req) (message req),
      [Retrieved (message req) 3])"
  by (simp add: chat_def)

lemma chat_turn:
  assumes "strip (message req) \<noteq> []" and "build_context e (message req) 3 = Inr cb"
  shows "chat e s req =
     (case run_llm_with_tools e (build_system_prompt cb) (turn_messages s req) of
        (Inl exc, trace) \<Rightarrow>
          (Inl (provider_failure e exc), append_user s (session_id req) (message req),
           Retrieved (message req) 3 # trace)
      | (Inr result, trace) \<Rightarrow>
          (Inr result,
           append_assistant (append_user s (session_id req) (message req)) (session_id req)
             (answer result),
           Retrieved (message req) 3 # trace))"
  using assms
  by (simp add: chat_def turn_messages_def history_of_def get_history_append_user
      provider_failure_def chat_result_rebuild
      split: prod.splits sum.splits py_exception.splits)

text \<open>Evaluating the sample surroundings.\<close>

lemma sample_env_sel:
  "retrieve (sample_env r c) = r" "messages_create (sample_env r c) = c"
  "today (sample_env r c) = lit ''2025-07-01''" "str_exc (sample_env r c) = sample_str_exc"
  "str_result (sample_env r c) = sample_str_result"
  by (simp_all add: sample_env_def)

lemma s1_request_sel:
  "session_id (s1_request m) = lit ''s1''" "message (s1_request m) = m"
  by (simp_all add: s1_request_def)

lemma strip_hello: "strip (lit ''Where is my order 123?'') \<noteq> []"
  by (simp add: strip_def lit_def isspace_def)

lemma strip_blank: "strip (lit ''  '' @ [10]) = []"
  by (simp add: strip_def lit_def isspace_def)

lemma tools_turn_request: "tools (turn_request s req cb) = Some get_tool_specs"
  by (simp add: turn_request_def first_request_def)

lemma tools_turn_followup: "tools (turn_followup e s req cb c1) = None"
  by (simp add: turn_followup_def followup_request_def)

lemma build_context_no_hits:
  "build_context (sample_env no_hits c) q k = Inr []"
  by (simp add: build_context_def sample_env_sel no_hits_def)

section \<open>Properties\<close>

text \<open>
  C5. A request whose message is empty after stripping whitespace is rejected with the
  HTTP error 400 before anything else happens: the sessions are exactly as before, no call
  on the outside world has been made, and a session that did not exist still has a history
  of length 0.
\<close>

theorem chat_rejects_empty_message:
  assumes "strip (message req) = []"
  shows "chat e s req = (Inl (HTTPException 400 (lit ''Message cannot be empty.'')), s, []) \<and>
         (s (session_id req) = None \<longrightarrow>
            length (history_of (fst (snd (chat e s req))) (session_id req)) = 0)"
  using assms by (simp add: chat_def history_of_eq)

theorem chat_rejects_empty_message_witness:
  "chat (sample_env no_hits text_llm) init_sessions (s1_request (lit ''  '' @ [10])) =
     (Inl (HTTPException 400 (lit ''Message cannot be empty.'')), init_sessions, []) \<and>
   length (history_of (fst (snd (chat (sample_env no_hits text_llm) init_sessions
      (s1_request (lit ''  '' @ [10]))))) (lit ''s1'')) = 0"
proof -
  have blank: "strip (message (s1_request (lit ''  '' @ [10]))) = []"
    by (simp add: s1_request_sel strip_blank)
  have fresh: "init_sessions (session_id (s1_request (lit ''  '' @ [10]))) = None"
    by (simp add: init_sessions_def)
  note rejected =
    chat_rejects_empty_message [OF blank, of "sample_env no_hits text_llm" init_sessions]
  from rejected have "chat (sample_env no_hits text_llm) init_sessions
      (s1_request (lit ''  '' @ [10])) =
     (Inl (HTTPException 400 (lit ''Message cannot be empty.'')), init_sessions, [])"
    by (rule conjunct1)
  moreover from rejected [THEN conjunct2, rule_format, OF fresh]
  have "length (history_of (fst (snd (chat (sample_env no_hits text_llm) init_sessions
      (s1_request (lit ''  '' @ [10]))))) (lit ''s1'')) = 0"
    by (simp only: s1_request_sel)
  ultimately show ?thesis by (rule conjI)
qed

text \<open>
  C1, as the code has it. Nothing in \<open>chat\<close> handles an exception of the retrieval
  step: when \<open>retrieve\<close> raises, the exception leaves \<open>chat\<close> as it is. The user message
  has been appended by then; no completion is requested and no assistant message is
  appended.
\<close>

theorem chat_retrieval_failure_aborts:
  assumes "strip (message req) \<noteq> []" and "retrieve e (message req) 3 = Inl exc"
  shows "chat e s req =
           (Inl (Unhandled exc), append_user s (session_id req) (message req),
            [Retrieved (message req) 3])"
  using assms by (simp add: chat_no_context build_context_failed)

theorem chat_retrieval_failure_aborts_witness:
  "chat (sample_env store_offline text_llm) init_sessions
     (s1_request (lit ''Where is my order 123?'')) =
   (Inl (Unhandled (OtherException (lit ''Collection knowledge does not exist.''))),
    append_user init_sessions (lit ''s1'') (lit ''Where is my order 123?''),
    [Retrieved (lit ''Where is my order 123?'') 3])"
proof -
  have said: "strip (message (s1_request (lit ''Where is my order 123?''))) \<noteq> []"
    by (simp add: s1_request_sel strip_hello)
  have down: "retrieve (sample_env store_offline text_llm)
      (message (s1_request (lit ''Where is my order 123?''))) 3 =
      Inl (OtherException (lit ''Collection knowledge does not exist.''))"
    by (simp add: sample_env_sel store_offline_def)
  from chat_retrieval_failure_aborts [OF said down, of init_sessions]
  show ?thesis by (simp only: s1_request_sel)
qed

text \<open>
  The claim as stated fails: with the vector store out of reach and a provider that would
  answer, the turn ends in the exception of the retrieval step, and the provider is never
  asked.
\<close>

theorem chat_retrieval_failure_counterexample:
  "fst (chat (sample_env store_offline text_llm) init_sessions
          (s1_request (lit ''Where is my order 123?''))) =
     Inl (Unhandled (OtherException (lit ''Collection knowledge does not exist.''))) \<and>
   completions (snd (snd (chat (sample_env store_offline text_llm) init_sessions
          (s1_request (lit ''Where is my order 123?''))))) = []"
proof -
  have said: "strip (message (s1_request (lit ''Where is my order 123?''))) \<noteq> []"
    by (simp add: s1_request_sel strip_hello)
  have down: "build_context (sample_env store_offline text_llm)
      (message (s1_request (lit ''Where is my order 123?''))) 3 =
      Inl (OtherException (lit ''Collection knowledge does not exist.''))"
    by (simp add: build_context_def sample_env_sel store_offline_def)
  show ?thesis by (simp add: chat_no_context [OF said down])
qed

text \<open>
  C8. \<open>build_context\<close> on an empty retrieval result returns the empty string, not an
  error; the system prompt for the empty string holds the sentinel
  \<open>NO CONTEXT RETRIEVED\<close> at the place of the context block, between the same two pieces
  of the template; the system prompt for a non-empty block holds that block there,
  character for character.
\<close>

theorem context_assembly_round_trip:
  "(retrieve e q k = Inr [] \<longrightarrow> build_context e q k = Inr []) \<and>
   build_system_prompt [] = prompt_head @ lit ''NO CONTEXT RETRIEVED'' @ prompt_tail \<and>
   (block \<noteq> [] \<longrightarrow> build_system_prompt block = prompt_head @ block @ prompt_tail)"
  by (simp add: build_context_def build_system_prompt_def NO_CONTEXT_def)

theorem context_assembly_round_trip_witness:
  "build_context (sample_env no_hits text_llm) (lit ''Where is my order 123?'') 3 = Inr [] \<and>
   build_system_prompt [] = prompt_head @ lit ''NO CONTEXT RETRIEVED'' @ prompt_tail \<and>
   build_system_prompt (lit ''[Document 1 | score=0.1234]'' @ [10] @ lit ''Returns take 30 days.'') =
     prompt_head @ (lit ''[Document 1 | score=0.1234]'' @ [10] @ lit ''Returns take 30 days.'') @
       prompt_tail"
proof -
  have empty: "retrieve (sample_env no_hits text_llm) (lit ''Where is my order 123?'') 3 = Inr []"
    by (simp add: sample_env_sel no_hits_def)
  have block: "lit ''[Document 1 | score=0.1234]'' @ [10] @ lit ''Returns take 30 days.'' \<noteq> []"
    by (simp add: lit_def)
  note round_trip = context_assembly_round_trip
    [of "sample_env no_hits text_llm" "lit ''Where is my order 123?''" 3
        "lit ''[Document 1 | score=0.1234]'' @ [10] @ lit ''Returns take 30 days.''"]
  from round_trip [THEN conjunct1, rule_format, OF empty]
       round_trip [THEN conjunct2, THEN conjunct1]
       round_trip [THEN conjunct2, THEN conjunct2, rule_format, OF block]
  show ?thesis by (intro conjI)
qed

section \<open>Sample turns\<close>

lemma strip_shipped: "strip (lit ''Your order 123 has shipped.'') = lit ''Your order 123 has shipped.''"
  by (simp add: strip_def lit_def isspace_def)

lemma execute_order_123:
  "execute_tool t (lit ''get_order_status'') [(lit ''order_id'', JStr (lit ''123''))] =
     Inr (get_order_status t (JStr (lit ''123'')))"
  by (simp add: execute_tool_def TOOL_FUNCTIONS_def call_get_order_status_def lit_def)

lemma execute_unknown_tool:
  "execute_tool t (lit ''unknown_tool'') [] =
     Inl (KeyError (lit ''Unknown tool: '' @ lit ''unknown_tool''))"
  by (simp add: execute_tool_def TOOL_FUNCTIONS_def lit_def)

lemma tool_uses_order: "tool_uses [order_use] =
    [(lit ''toolu_02'', lit ''get_order_status'', [(lit ''order_id'', JStr (lit ''123''))])]"
  by (simp add: order_use_def)

lemma said_order: "strip (message (s1_request (lit ''Where is my order 123?''))) \<noteq> []"
  by (simp add: s1_request_sel strip_hello)

lemma order_turn_first:
  "messages_create (sample_env no_hits order_llm)
     (turn_request s (s1_request (lit ''Where is my order 123?'')) []) = Inr [order_use]"
  by (simp add: sample_env_sel order_llm_def tools_turn_request)

lemma order_turn_second:
  "messages_create (sample_env no_hits order_llm)
     (turn_followup e s (s1_request (lit ''Where is my order 123?'')) [] [order_use]) =
   Inr [TextBlock (lit ''Your order 123 has shipped.'')]"
  by (simp add: sample_env_sel order_llm_def tools_turn_followup)

lemma order_turn:
  "chat (sample_env no_hits order_llm) s (s1_request (lit ''Where is my order 123?'')) =
     (Inr \<lparr>answer = lit ''Your order 123 has shipped.'',
           tool_calls =
             [\<lparr>call_name = lit ''get_order_status'',
               call_arguments = [(lit ''order_id'', JStr (lit ''123''))],
               call_result = get_order_status (lit ''2025-07-01'') (JStr (lit ''123''))\<rparr>]\<rparr>,
      append_assistant (append_user s (lit ''s1'') (lit ''Where is my order 123?''))
        (lit ''s1'') (lit ''Your order 123 has shipped.''),
      [Retrieved (lit ''Where is my order 123?'') 3,
       Created (turn_request s (s1_request (lit ''Where is my order 123?'')) []),
       Executed (lit ''get_order_status'') [(lit ''order_id'', JStr (lit ''123''))],
       Created (turn_followup (sample_env no_hits order_llm) s
          (s1_request (lit ''Where is my order 123?'')) [] [order_use])])"
proof -
  have ctx: "build_context (sample_env no_hits order_llm)
      (message (s1_request (lit ''Where is my order 123?''))) 3 = Inr []"
    by (rule build_context_no_hits)
  have uses: "tool_uses [order_use] \<noteq> []"
    by (simp add: tool_uses_order)
  have run: "run_llm_with_tools (sample_env no_hits order_llm) (build_system_prompt [])
      (turn_messages s (s1_request (lit ''Where is my order 123?''))) =
     (Inr \<lparr>answer = lit ''Your order 123 has shipped.'',
           tool_calls =
             [\<lparr>call_name = lit ''get_order_status'',
               call_arguments = [(lit ''order_id'', JStr (lit ''123''))],
               call_result = get_order_status (lit ''2025-07-01'') (JStr (lit ''123''))\<rparr>]\<rparr>,
      [Created (turn_request s (s1_request (lit ''Where is my order 123?'')) []),
       Executed (lit ''get_order_status'') [(lit ''order_id'', JStr (lit ''123''))],
       Created (turn_followup (sample_env no_hits order_llm) s
          (s1_request (lit ''Where is my order 123?'')) [] [order_use])])"
    using order_turn_first [of s] order_turn_second [of "sample_env no_hits order_llm" s]
    by (simp add: run_llm_with_tools_tools [OF order_turn_first [unfolded turn_request_def] uses]
        turn_request_def turn_followup_def tool_uses_order call_of_def executed_of_def
        try_execute_tool_def execute_order_123 sample_env_sel extract_text_from_blocks_def
        strip_shipped)
  show ?thesis
    by (simp add: chat_turn [OF said_order ctx] run s1_request_sel)
qed
section \<open>Sessions across turns\<close>

lemma chat_sessions_cases:
  "fst (snd (chat e s req)) = s \<or>
   fst (snd (chat e s req)) = append_user s (session_id req) (message req) \<or>
   (\<exists>a. fst (snd (chat e s req)) =
      append_assistant (append_user s (session_id req) (message req)) (session_id req) a)"
proof (cases "strip (message req) = []")
  case True
  then show ?thesis by (simp add: chat_def)
next
  case False
  show ?thesis
  proof (cases "build_context e (message req) 3")
    case (Inl exc)
    with False show ?thesis by (simp add: chat_no_context)
  next
    case (Inr cb)
    show ?thesis
      by (auto simp add: chat_turn [OF False Inr] split: prod.splits sum.splits)
  qed
qed

lemma chat_success:
  assumes "chat e s req = (Inr r, s', tr)"
  shows "s' = append_assistant (append_user s (session_id req) (message req))
              (session_id req) (answer r)"
proof (cases "strip (message req) = []")
  case True
  with assms show ?thesis by (simp add: chat_def)
next
  case False
  show ?thesis
  proof (cases "build_context e (message req) 3")
    case (Inl exc)
    with False assms show ?thesis by (simp add: chat_no_context)
  next
    case (Inr cb)
    from assms show ?thesis
      by (auto simp add: chat_turn [OF False Inr] split: prod.splits sum.splits)
  qed
qed

lemma history_of_append_all:
  "history_of (append_all s sid xs) sid = history_of s sid @ map appended xs"
proof (induction xs arbitrary: s)
  case Nil
  show ?case by simp
next
  case (Cons x xs)
  obtain u t where x: "x = (u, t)" by (cases x)
  show ?case
    by (simp add: x Cons.IH history_of_append_user history_of_append_assistant appended_def)
qed

text \<open>
  C7. A session id that the store has never seen has the empty history. Appends to a
  session accumulate at the end of its history in the order of the calls. After a turn
  that \<open>chat\<close> completes, the history of the session is the one before the turn followed
  by the new user message and then the new assistant answer.
\<close>

theorem history_accumulates_in_call_order:
  "(s sid = None \<longrightarrow> fst (get_history s sid) = []) \<and>
   history_of (append_all s sid xs) sid = history_of s sid @ map appended xs \<and>
   (chat e s req = (Inr r, s', tr) \<longrightarrow>
      history_of s' (session_id req) =
        history_of s (session_id req) @
          [\<lparr>role = lit ''user'', content = Text (message req)\<rparr>,
           \<lparr>role = lit ''assistant'', content = Text (answer r)\<rparr>])"
proof (intro conjI impI)
  assume "s sid = None"
  then show "fst (get_history s sid) = []" by (simp add: get_history_def)
next
  show "history_of (append_all s sid xs) sid = history_of s sid @ map appended xs"
    by (rule history_of_append_all)
next
  assume "chat e s req = (Inr r, s', tr)"
  then have "s' = append_assistant (append_user s (session_id req) (message req))
              (session_id req) (answer r)"
    by (rule chat_success)
  then show "history_of s' (session_id req) =
        history_of s (session_id req) @
          [\<lparr>role = lit ''user'', content = Text (message req)\<rparr>,
           \<lparr>role = lit ''assistant'', content = Text (answer r)\<rparr>]"
    by (simp add: history_of_append_assistant history_of_append_user)
qed

theorem history_accumulates_in_call_order_witness:
  "fst (get_history init_sessions (lit ''s1'')) = [] \<and>
   history_of (append_all init_sessions (lit ''s1'')
       [(True, lit ''first''), (False, lit ''second''), (True, lit ''third'')]) (lit ''s1'') =
     history_of init_sessions (lit ''s1'') @
       map appended [(True, lit ''first''), (False, lit ''second''), (True, lit ''third'')] \<and>
   history_of
     (append_assistant (append_user init_sessions (lit ''s1'') (lit ''Where is my order 123?''))
        (lit ''s1'') (lit ''Your order 123 has shipped.'')) (lit ''s1'') =
     history_of init_sessions (lit ''s1'') @
       [\<lparr>role = lit ''user'', content = Text (lit ''Where is my order 123?'')\<rparr>,
        \<lparr>role = lit ''assistant'', content = Text (lit ''Your order 123 has shipped.'')\<rparr>]"
proof -
  have fresh: "init_sessions (lit ''s1'') = None"
    by (simp add: init_sessions_def)
  note accumulates = history_accumulates_in_call_order
    [of init_sessions "lit ''s1''"
        "[(True, lit ''first''), (False, lit ''second''), (True, lit ''third'')]"
        "sample_env no_hits order_llm" "s1_request (lit ''Where is my order 123?'')"]
  from accumulates [THEN conjunct1, rule_format, OF fresh]
  have "fst (get_history init_sessions (lit ''s1'')) = []" .
  moreover from accumulates [THEN conjunct2, THEN conjunct1]
  have "history_of (append_all init_sessions (lit ''s1'')
       [(True, lit ''first''), (False, lit ''second''), (True, lit ''third'')]) (lit ''s1'') =
     history_of init_sessions (lit ''s1'') @
       map appended [(True, lit ''first''), (False, lit ''second''), (True, lit ''third'')]" .
  moreover from accumulates [THEN conjunct2, THEN conjunct2, rule_format, OF order_turn]
  have "history_of
     (append_assistant (append_user init_sessions (lit ''s1'') (lit ''Where is my order 123?''))
        (lit ''s1'') (lit ''Your order 123 has shipped.'')) (lit ''s1'') =
     history_of init_sessions (lit ''s1'') @
       [\<lparr>role = lit ''user'', content = Text (lit ''Where is my order 123?'')\<rparr>,
        \<lparr>role = lit ''assistant'', content = Text (lit ''Your order 123 has shipped.'')\<rparr>]"
    by (simp add: s1_request_sel)
  ultimately show ?thesis by (intro conjI)
qed

lemma plain_user: "plain_message \<lparr>role = lit ''user'', content = Text t\<rparr>"
  by (simp add: plain_message_def)

lemma plain_assistant: "plain_message \<lparr>role = lit ''assistant'', content = Text t\<rparr>"
  by (simp add: plain_message_def)

lemma history_of_plain:
  "\<forall>sid h. s sid = Some h \<longrightarrow> (\<forall>m\<in>set h. plain_message m) \<Longrightarrow>
   \<forall>m\<in>set (history_of s sid). plain_message m"
  by (cases "s sid") (simp_all add: history_of_eq)

lemma append_user_plain:
  assumes inv: "\<forall>sid h. s sid = Some h \<longrightarrow> (\<forall>m\<in>set h. plain_message m)"
  shows "\<forall>sid h. append_user s sid0 t sid = Some h \<longrightarrow> (\<forall>m\<in>set h. plain_message m)"
proof (intro allI impI)
  fix sid h
  assume h: "append_user s sid0 t sid = Some h"
  show "\<forall>m\<in>set h. plain_message m"
  proof (cases "sid = sid0")
    case True
    with h have "h = history_of s sid0 @ [\<lparr>role = lit ''user'', content = Text t\<rparr>]"
      by (simp add: append_user_same)
    then show ?thesis
      using history_of_plain [OF inv, of sid0] by (simp add: plain_user)
  next
    case False
    with h have "s sid = Some h" by (simp add: append_user_other)
    with inv show ?thesis by blast
  qed
qed

lemma append_assistant_plain:
  assumes inv: "\<forall>sid h. s sid = Some h \<longrightarrow> (\<forall>m\<in>set h. plain_message m)"
  shows "\<forall>sid h. append_assistant s sid0 t sid = Some h \<longrightarrow> (\<forall>m\<in>set h. plain_message m)"
proof (intro allI impI)
  fix sid h
  assume h: "append_assistant s sid0 t sid = Some h"
  show "\<forall>m\<in>set h. plain_message m"
  proof (cases "sid = sid0")
    case True
    with h have "h = history_of s sid0 @ [\<lparr>role = lit ''assistant'', content = Text t\<rparr>]"
      by (simp add: append_assistant_same)
    then show ?thesis
      using history_of_plain [OF inv, of sid0] by (simp add: plain_assistant)
  next
    case False
    with h have "s sid = Some h" by (simp add: append_assistant_other)
    with inv show ?thesis by blast
  qed
qed

lemma chat_plain:
  assumes inv: "\<forall>sid h. s sid = Some h \<longrightarrow> (\<forall>m\<in>set h. plain_message m)"
  shows "\<forall>sid h. fst (snd (chat e s req)) sid = Some h \<longrightarrow> (\<forall>m\<in>set h. plain_message m)"
proof -
  let ?s1 = "append_user s (session_id req) (message req)"
  have s1: "\<forall>sid h. ?s1 sid = Some h \<longrightarrow> (\<forall>m\<in>set h. plain_message m)"
    by (rule append_user_plain [OF inv])
  from chat_sessions_cases [of e s req]
  consider "fst (snd (chat e s req)) = s"
    | "fst (snd (chat e s req)) = ?s1"
    | a where "fst (snd (chat e s req)) = append_assistant ?s1 (session_id req) a"
    by blast
  then show ?thesis
  proof cases
    case 1
    with inv show ?thesis by simp
  next
    case 2
    with s1 show ?thesis by simp
  next
    case 3
    with append_assistant_plain [OF s1, of "session_id req" a] show ?thesis by simp
  qed
qed

lemma chats_plain:
  "\<forall>sid h. s sid = Some h \<longrightarrow> (\<forall>m\<in>set h. plain_message m) \<Longrightarrow>
   \<forall>sid h. chats s turns sid = Some h \<longrightarrow> (\<forall>m\<in>set h. plain_message m)"
proof (induction turns arbitrary: s)
  case Nil
  then show ?case by simp
next
  case (Cons turn turns)
  obtain e req where turn: "turn = (e, req)" by (cases turn)
  from Cons.IH [OF chat_plain [OF Cons.prems, of e req]]
  show ?case by (simp add: turn)
qed

text \<open>
  C9. Whatever turns have been run since the store was created, and whatever the vector
  store, the provider and the tools did in them, every message stored in every session has
  the role \<open>user\<close> or \<open>assistant\<close> and a plain string as its content: the blocks of a
  response and the \<open>tool_result\<close> blocks live in the message list of one turn only.
\<close>

theorem stored_messages_are_plain:
  assumes "chats init_sessions turns sid = Some h" and "m \<in> set h"
  shows "plain_message m"
proof -
  have "\<forall>sid h. init_sessions sid = Some h \<longrightarrow> (\<forall>m\<in>set h. plain_message m)"
    by (simp add: init_sessions_def)
  from chats_plain [OF this, of turns] assms show ?thesis by blast
qed

lemma order_turn_stored:
  "chats init_sessions
     [(sample_env no_hits order_llm, s1_request (lit ''Where is my order 123?''))] (lit ''s1'') =
   Some [\<lparr>role = lit ''user'', content = Text (lit ''Where is my order 123?'')\<rparr>,
         \<lparr>role = lit ''assistant'', content = Text (lit ''Your order 123 has shipped.'')\<rparr>]"
proof -
  have "history_of init_sessions (lit ''s1'') = []"
    by (simp add: history_of_eq init_sessions_def)
  then show ?thesis
    by (simp add: order_turn append_assistant_same history_of_append_user)
qed

theorem stored_messages_are_plain_witness:
  "chats init_sessions
     [(sample_env no_hits order_llm, s1_request (lit ''Where is my order 123?''))] (lit ''s1'') =
   Some [\<lparr>role = lit ''user'', content = Text (lit ''Where is my order 123?'')\<rparr>,
         \<lparr>role = lit ''assistant'', content = Text (lit ''Your order 123 has shipped.'')\<rparr>] \<and>
   plain_message \<lparr>role = lit ''user'', content = Text (lit ''Where is my order 123?'')\<rparr> \<and>
   plain_message \<lparr>role = lit ''assistant'', content = Text (lit ''Your order 123 has shipped.'')\<rparr>"
proof -
  note plain = stored_messages_are_plain [OF order_turn_stored]
  have "plain_message \<lparr>role = lit ''user'', content = Text (lit ''Where is my order 123?'')\<rparr>"
    by (rule plain) simp
  moreover
  have "plain_message \<lparr>role = lit ''assistant'', content = Text (lit ''Your order 123 has shipped.'')\<rparr>"
    by (rule plain) simp
  ultimately show ?thesis using order_turn_stored by (intro conjI)
qed

section \<open>The two rounds of a turn\<close>

lemma completions_append: "completions (xs @ ys) = completions xs @ completions ys"
  by (induction xs rule: completions.induct) simp_all

lemma executions_append: "executions (xs @ ys) = executions xs @ executions ys"
  by (induction xs rule: executions.induct) simp_all

lemma completions_executed: "completions (map executed_of us) = []"
  by (induction us) (auto simp add: executed_of_def)

lemma executions_executed: "executions (map executed_of us) = map snd us"
  by (induction us) (auto simp add: executed_of_def)

lemma chat_first_failed:
  assumes "strip (message req) \<noteq> []" and "build_context e (message req) 3 = Inr cb"
      and "messages_create e (turn_request s req cb) = Inl exc"
  shows "chat e s req =
           (Inl (provider_failure e exc), append_user s (session_id req) (message req),
            [Retrieved (message req) 3, Created (turn_request s req cb)])"
  using assms(3)
  by (simp add: chat_turn [OF assms(1,2)] turn_request_def run_llm_with_tools_failed_first)

lemma chat_no_tools:
  assumes "strip (message req) \<noteq> []" and "build_context e (message req) 3 = Inr cb"
      and "messages_create e (turn_request s req cb) = Inr c1" and "tool_uses c1 = []"
  shows "chat e s req =
           (Inr \<lparr>answer = extract_text_from_blocks c1, tool_calls = []\<rparr>,
            append_assistant (append_user s (session_id req) (message req)) (session_id req)
              (extract_text_from_blocks c1),
            [Retrieved (message req) 3, Created (turn_request s req cb)])"
  using assms(3,4)
  by (simp add: chat_turn [OF assms(1,2)] turn_request_def run_llm_with_tools_no_tools)

lemma chat_tools:
  assumes "strip (message req) \<noteq> []" and "build_context e (message req) 3 = Inr cb"
      and "messages_create e (turn_request s req cb) = Inr c1" and "tool_uses c1 \<noteq> []"
  shows "chat e s req =
           (case messages_create e (turn_followup e s req cb c1) of
              Inl exc \<Rightarrow>
                (Inl (provider_failure e exc), append_user s (session_id req) (message req),
                 Retrieved (message req) 3 # Created (turn_request s req cb) #
                   map executed_of (tool_uses c1) @ [Created (turn_followup e s req cb c1)])
            | Inr c2 \<Rightarrow>
                (Inr \<lparr>answer = extract_text_from_blocks c2,
                      tool_calls = map (call_of e) (tool_uses c1)\<rparr>,
                 append_assistant (append_user s (session_id req) (message req))
                   (session_id req) (extract_text_from_blocks c2),
                 Retrieved (message req) 3 # Created (turn_request s req cb) #
                   map executed_of (tool_uses c1) @ [Created (turn_followup e s req cb c1)]))"
  using assms(3,4)
  by (simp add: chat_turn [OF assms(1,2)] turn_request_def turn_followup_def
      run_llm_with_tools_tools split: sum.splits)

lemma chat_tools_trace:
  assumes "strip (message req) \<noteq> []" and "build_context e (message req) 3 = Inr cb"
      and "messages_create e (turn_request s req cb) = Inr c1" and "tool_uses c1 \<noteq> []"
  shows "snd (snd (chat e s req)) =
           Retrieved (message req) 3 # Created (turn_request s req cb) #
             map executed_of (tool_uses c1) @ [Created (turn_followup e s req cb c1)]"
  by (simp add: chat_tools [OF assms] split: sum.splits)

lemma chat_tools_calls:
  assumes "strip (message req) \<noteq> []" and "build_context e (message req) 3 = Inr cb"
      and "messages_create e (turn_request s req cb) = Inr c1" and "tool_uses c1 \<noteq> []"
      and "fst (chat e s req) = Inr r"
  shows "tool_calls r = map (call_of e) (tool_uses c1)"
  using assms(5) by (auto simp add: chat_tools [OF assms(1-4)] split: sum.splits)

lemma call_of_name_arguments:
  "map (\<lambda>c. (call_name c, call_arguments c)) (map (call_of e) us) = map snd us"
  by (induction us) (auto simp add: call_of_def)

text \<open>
  C3. Let the first completion of a turn hold N \<open>tool_use\<close> blocks. For N = 0 the turn
  ends with an empty \<open>tool_calls\<close>, after the one completion request and no tool
  execution. For N \<ge> 1 the tools executed are those of the N blocks, once each and in the
  order of the blocks; the completion requests are the first one and exactly one follow-up;
  and \<open>tool_calls\<close> of a result has length N, with the names and arguments of the blocks in
  their order.
\<close>

theorem tool_rounds_follow_tool_use_blocks:
  assumes "strip (message req) \<noteq> []" and "build_context e (message req) 3 = Inr cb"
      and "messages_create e (turn_request s req cb) = Inr c1"
  shows "(tool_uses c1 = [] \<longrightarrow>
            fst (chat e s req) =
              Inr \<lparr>answer = extract_text_from_blocks c1, tool_calls = []\<rparr> \<and>
            completions (snd (snd (chat e s req))) = [turn_request s req cb] \<and>
            executions (snd (snd (chat e s req))) = []) \<and>
         (tool_uses c1 \<noteq> [] \<longrightarrow>
            executions (snd (snd (chat e s req))) = map snd (tool_uses c1) \<and>
            completions (snd (snd (chat e s req))) =
              [turn_request s req cb, turn_followup e s req cb c1] \<and>
            (\<forall>r. fst (chat e s req) = Inr r \<longrightarrow>
               length (tool_calls r) = length (tool_uses c1) \<and>
               map (\<lambda>c. (call_name c, call_arguments c)) (tool_calls r) =
                 map snd (tool_uses c1)))"
proof (intro conjI impI allI)
  assume none: "tool_uses c1 = []"
  note turn = chat_no_tools [OF assms none]
  show "fst (chat e s req) = Inr \<lparr>answer = extract_text_from_blocks c1, tool_calls = []\<rparr>"
    by (simp add: turn)
  show "completions (snd (snd (chat e s req))) = [turn_request s req cb]"
    by (simp add: turn)
  show "executions (snd (snd (chat e s req))) = []"
    by (simp add: turn)
next
  assume some: "tool_uses c1 \<noteq> []"
  note trace = chat_tools_trace [OF assms some]
  show "executions (snd (snd (chat e s req))) = map snd (tool_uses c1)"
    by (simp add: trace executions_append executions_executed)
  show "completions (snd (snd (chat e s req))) =
          [turn_request s req cb, turn_followup e s req cb c1]"
    by (simp add: trace completions_append completions_executed)
  fix r
  assume "fst (chat e s req) = Inr r"
  then have calls: "tool_calls r = map (call_of e) (tool_uses c1)"
    by (rule chat_tools_calls [OF assms some])
  show "length (tool_calls r) = length (tool_uses c1)"
    by (simp add: calls)
  show "map (\<lambda>c. (call_name c, call_arguments c)) (tool_calls r) = map snd (tool_uses c1)"
    by (simp only: calls call_of_name_arguments)
qed

lemma text_turn_first:
  "messages_create (sample_env no_hits text_llm)
     (turn_request s (s1_request (lit ''Where is my order 123?'')) []) =
   Inr [TextBlock (lit ''Hello!'')]"
  by (simp add: sample_env_sel text_llm_def)

theorem tool_rounds_follow_tool_use_blocks_witness:
  "fst (chat (sample_env no_hits text_llm) init_sessions
          (s1_request (lit ''Where is my order 123?''))) =
     Inr \<lparr>answer = extract_text_from_blocks [TextBlock (lit ''Hello!'')], tool_calls = []\<rparr> \<and>
   completions (snd (snd (chat (sample_env no_hits text_llm) init_sessions
          (s1_request (lit ''Where is my order 123?''))))) =
     [turn_request init_sessions (s1_request (lit ''Where is my order 123?'')) []] \<and>
   executions (snd (snd (chat (sample_env no_hits text_llm) init_sessions
          (s1_request (lit ''Where is my order 123?''))))) = [] \<and>
   executions (snd (snd (chat (sample_env no_hits order_llm) init_sessions
          (s1_request (lit ''Where is my order 123?''))))) = map snd (tool_uses [order_use]) \<and>
   completions (snd (snd (chat (sample_env no_hits order_llm) init_sessions
          (s1_request (lit ''Where is my order 123?''))))) =
     [turn_request init_sessions (s1_request (lit ''Where is my order 123?'')) [],
      turn_followup (sample_env no_hits order_llm) init_sessions
        (s1_request (lit ''Where is my order 123?'')) [] [order_use]] \<and>
   length
     [\<lparr>call_name = lit ''get_order_status'',
       call_arguments = [(lit ''order_id'', JStr (lit ''123''))],
       call_result = get_order_status (lit ''2025-07-01'') (JStr (lit ''123''))\<rparr>] =
     length (tool_uses [order_use]) \<and>
   map (\<lambda>c. (call_name c, call_arguments c))
     [\<lparr>call_name = lit ''get_order_status'',
       call_arguments = [(lit ''order_id'', JStr (lit ''123''))],
       call_result = get_order_status (lit ''2025-07-01'') (JStr (lit ''123''))\<rparr>] =
     map snd (tool_uses [order_use])"
proof -
  have none: "tool_uses [TextBlock (lit ''Hello!'')] = []"
    by simp
  have some: "tool_uses [order_use] \<noteq> []"
    by (simp add: tool_uses_order)
  note plain = tool_rounds_follow_tool_use_blocks
    [OF said_order build_context_no_hits text_turn_first, of init_sessions,
     THEN conjunct1, rule_format, OF none]
  note tooled = tool_rounds_follow_tool_use_blocks
    [OF said_order build_context_no_hits order_turn_first, of init_sessions,
     THEN conjunct2, rule_format, OF some]
  have result: "fst (chat (sample_env no_hits order_llm) init_sessions
      (s1_request (lit ''Where is my order 123?''))) =
     Inr \<lparr>answer = lit ''Your order 123 has shipped.'',
          tool_calls =
            [\<lparr>call_name = lit ''get_order_status'',
              call_arguments = [(lit ''order_id'', JStr (lit ''123''))],
              call_result = get_order_status (lit ''2025-07-01'') (JStr (lit ''123''))\<rparr>]\<rparr>"
    by (simp add: order_turn)
  note calls = tooled [THEN conjunct2, THEN conjunct2, rule_format, OF result]
  from plain tooled [THEN conjunct1] tooled [THEN conjunct2, THEN conjunct1] calls
  show ?thesis by simp
qed

section \<open>Tool failures\<close>

lemma execute_tool_unknown:
  "map_of TOOL_FUNCTIONS nm = None \<Longrightarrow>
   execute_tool t nm inp = Inl (KeyError (lit ''Unknown tool: '' @ nm))"
  by (simp add: execute_tool_def)

lemma try_execute_tool_failed:
  "execute_tool (today e) nm inp = Inl exc \<Longrightarrow>
   try_execute_tool e nm inp = JDict [(lit ''error'', JStr (str_exc e exc))]"
  by (simp add: try_execute_tool_def)

lemma last_messages_turn_followup:
  "last (messages (turn_followup e s req cb c1)) =
     \<lparr>role = lit ''user'', content = ToolResults (map (result_block_of e) (tool_uses c1))\<rparr>"
  by (simp add: turn_followup_def followup_request_def)

text \<open>
  C4. Let the first completion of a turn hold \<open>tool_use\<close> blocks, and let the execution
  of the one at position \<open>k\<close> fail; for a name outside the registry it does fail, with the
  \<open>KeyError\<close> of \<open>execute_tool\<close>. Then every block of the response is still executed, in
  order, and the follow-up completion is still requested; the last message of the
  follow-up carries one \<open>tool_result\<close> block per \<open>tool_use\<close> block, the one at position
  \<open>k\<close> with the id of the failed block and the rendered \<open>{"error": ...}\<close>; and when the
  follow-up answers, the turn succeeds with a \<open>tool_calls\<close> entry at position \<open>k\<close> whose
  result is \<open>{"error": str(exc)}\<close>.
\<close>

theorem tool_failure_is_recorded:
  assumes "strip (message req) \<noteq> []" and "build_context e (message req) 3 = Inr cb"
      and "messages_create e (turn_request s req cb) = Inr c1"
      and "k < length (tool_uses c1)" and "tool_uses c1 ! k = (bid, nm, inp)"
      and "execute_tool (today e) nm inp = Inl exc"
  shows "(map_of TOOL_FUNCTIONS nm = None \<longrightarrow> exc = KeyError (lit ''Unknown tool: '' @ nm)) \<and>
         executions (snd (snd (chat e s req))) = map snd (tool_uses c1) \<and>
         completions (snd (snd (chat e s req))) =
           [turn_request s req cb, turn_followup e s req cb c1] \<and>
         (\<exists>blocks.
            last (messages (turn_followup e s req cb c1)) =
              \<lparr>role = lit ''user'', content = ToolResults blocks\<rparr> \<and>
            length blocks = length (tool_uses c1) \<and>
            blocks ! k =
              \<lparr>tr_type = lit ''tool_result'', tool_use_id = bid,
               tr_content = str_result e (JDict [(lit ''error'', JStr (str_exc e exc))])\<rparr>) \<and>
         (\<forall>c2. messages_create e (turn_followup e s req cb c1) = Inr c2 \<longrightarrow>
            (\<exists>r. fst (chat e s req) = Inr r \<and>
                 answer r = extract_text_from_blocks c2 \<and>
                 length (tool_calls r) = length (tool_uses c1) \<and>
                 tool_calls r ! k =
                   \<lparr>call_name = nm, call_arguments = inp,
                    call_result = JDict [(lit ''error'', JStr (str_exc e exc))]\<rparr>))"
proof -
  from assms(4) have some: "tool_uses c1 \<noteq> []" by auto
  note trace = chat_tools_trace [OF assms(1-3) some]
  have failed: "try_execute_tool e nm inp = JDict [(lit ''error'', JStr (str_exc e exc))]"
    by (rule try_execute_tool_failed [OF assms(6)])
  have unknown: "map_of TOOL_FUNCTIONS nm = None \<longrightarrow> exc = KeyError (lit ''Unknown tool: '' @ nm)"
    using assms(6) by (auto simp add: execute_tool_unknown)
  have execs: "executions (snd (snd (chat e s req))) = map snd (tool_uses c1)"
    by (simp add: trace executions_append executions_executed)
  have comps: "completions (snd (snd (chat e s req))) =
      [turn_request s req cb, turn_followup e s req cb c1]"
    by (simp add: trace completions_append completions_executed)
  have block: "map (result_block_of e) (tool_uses c1) ! k =
      \<lparr>tr_type = lit ''tool_result'', tool_use_id = bid,
       tr_content = str_result e (JDict [(lit ''error'', JStr (str_exc e exc))])\<rparr>"
    using assms(4,5) by (simp add: result_block_of_def failed)
  have blocks: "\<exists>blocks.
      last (messages (turn_followup e s req cb c1)) =
        \<lparr>role = lit ''user'', content = ToolResults blocks\<rparr> \<and>
      length blocks = length (tool_uses c1) \<and>
      blocks ! k =
        \<lparr>tr_type = lit ''tool_result'', tool_use_id = bid,
         tr_content = str_result e (JDict [(lit ''error'', JStr (str_exc e exc))])\<rparr>"
    using block last_messages_turn_followup [of e s req cb c1]
    by (intro exI [of _ "map (result_block_of e) (tool_uses c1)"]) simp
  have entry: "map (call_of e) (tool_uses c1) ! k =
      \<lparr>call_name = nm, call_arguments = inp,
       call_result = JDict [(lit ''error'', JStr (str_exc e exc))]\<rparr>"
    using assms(4,5) by (simp add: call_of_def failed)
  have answered: "\<forall>c2. messages_create e (turn_followup e s req cb c1) = Inr c2 \<longrightarrow>
      (\<exists>r. fst (chat e s req) = Inr r \<and>
           answer r = extract_text_from_blocks c2 \<and>
           length (tool_calls r) = length (tool_uses c1) \<and>
           tool_calls r ! k =
             \<lparr>call_name = nm, call_arguments = inp,
              call_result = JDict [(lit ''error'', JStr (str_exc e exc))]\<rparr>)"
    using entry by (simp add: chat_tools [OF assms(1-3) some])
  from unknown execs comps blocks answered show ?thesis by (intro conjI)
qed

lemma unknown_turn_first:
  "messages_create (sample_env no_hits unknown_tool_llm)
     (turn_request s (s1_request (lit ''Where is my order 123?'')) []) =
   Inr [TextBlock (lit ''Let me check.''), unknown_use, order_use]"
  by (simp add: sample_env_sel unknown_tool_llm_def tools_turn_request)

lemma unknown_turn_second:
  "messages_create (sample_env no_hits unknown_tool_llm)
     (turn_followup e s (s1_request (lit ''Where is my order 123?'')) [] c1) =
   Inr [TextBlock (lit ''I could not do that.'')]"
  by (simp add: sample_env_sel unknown_tool_llm_def tools_turn_followup)

theorem tool_failure_is_recorded_witness:
  "executions (snd (snd (chat (sample_env no_hits unknown_tool_llm) init_sessions
          (s1_request (lit ''Where is my order 123?''))))) =
     [(lit ''unknown_tool'', []),
      (lit ''get_order_status'', [(lit ''order_id'', JStr (lit ''123''))])] \<and>
   completions (snd (snd (chat (sample_env no_hits unknown_tool_llm) init_sessions
          (s1_request (lit ''Where is my order 123?''))))) =
     [turn_request init_sessions (s1_request (lit ''Where is my order 123?'')) [],
      turn_followup (sample_env no_hits unknown_tool_llm) init_sessions
        (s1_request (lit ''Where is my order 123?'')) []
        [TextBlock (lit ''Let me check.''), unknown_use, order_use]] \<and>
   (\<exists>r. fst (chat (sample_env no_hits unknown_tool_llm) init_sessions
            (s1_request (lit ''Where is my order 123?''))) = Inr r \<and>
        answer r = extract_text_from_blocks [TextBlock (lit ''I could not do that.'')] \<and>
        length (tool_calls r) = 2 \<and>
        tool_calls r ! 0 =
          \<lparr>call_name = lit ''unknown_tool'', call_arguments = [],
           call_result =
             JDict [(lit ''error'',
                     JStr (sample_str_exc
                       (KeyError (lit ''Unknown tool: '' @ lit ''unknown_tool''))))]\<rparr>)"
proof -
  let ?c1 = "[TextBlock (lit ''Let me check.''), unknown_use, order_use]"
  have pos: "0 < length (tool_uses ?c1)"
    by (simp add: unknown_use_def order_use_def)
  have at: "tool_uses ?c1 ! 0 = (lit ''toolu_01'', lit ''unknown_tool'', [])"
    by (simp add: unknown_use_def order_use_def)
  have fails: "execute_tool (today (sample_env no_hits unknown_tool_llm)) (lit ''unknown_tool'') [] =
      Inl (KeyError (lit ''Unknown tool: '' @ lit ''unknown_tool''))"
    by (rule execute_unknown_tool)
  note recorded = tool_failure_is_recorded
    [OF said_order build_context_no_hits unknown_turn_first pos at fails, of init_sessions]
  from recorded [THEN conjunct2, THEN conjunct1]
  have "executions (snd (snd (chat (sample_env no_hits unknown_tool_llm) init_sessions
          (s1_request (lit ''Where is my order 123?''))))) =
     [(lit ''unknown_tool'', []),
      (lit ''get_order_status'', [(lit ''order_id'', JStr (lit ''123''))])]"
    by (simp add: unknown_use_def order_use_def)
  moreover note recorded [THEN conjunct2, THEN conjunct2, THEN conjunct1]
  moreover
  from recorded [THEN conjunct2, THEN conjunct2, THEN conjunct2, THEN conjunct2, rule_format,
      OF unknown_turn_second]
  have "\<exists>r. fst (chat (sample_env no_hits unknown_tool_llm) init_sessions
            (s1_request (lit ''Where is my order 123?''))) = Inr r \<and>
        answer r = extract_text_from_blocks [TextBlock (lit ''I could not do that.'')] \<and>
        length (tool_calls r) = 2 \<and>
        tool_calls r ! 0 =
          \<lparr>call_name = lit ''unknown_tool'', call_arguments = [],
           call_result =
             JDict [(lit ''error'',
                     JStr (sample_str_exc
                       (KeyError (lit ''Unknown tool: '' @ lit ''unknown_tool''))))]\<rparr>"
    by (auto simp add: unknown_use_def order_use_def sample_env_sel)
  ultimately show ?thesis by (intro conjI)
qed

section \<open>Provider failures and empty answers\<close>

text \<open>
  C6. Let a completion request of a turn fail, the first one or the follow-up. Then the
  whole turn fails, and the failure reaches the caller: an \<open>APIStatusError\<close> as the HTTP
  error 500 with the detail \<open>Anthropic API error: ...\<close>, any other exception as itself;
  in no case as the error of an empty message. The user message appended at the start of
  the turn stays: the history of the session is the one before the turn followed by the
  user message, without an assistant reply.
\<close>

theorem provider_failure_keeps_user_message:
  assumes "strip (message req) \<noteq> []" and "build_context e (message req) 3 = Inr cb"
      and "messages_create e (turn_request s req cb) = Inl exc \<or>
           (\<exists>c1. messages_create e (turn_request s req cb) = Inr c1 \<and> tool_uses c1 \<noteq> [] \<and>
                 messages_create e (turn_followup e s req cb c1) = Inl exc)"
  shows "fst (chat e s req) = Inl (provider_failure e exc) \<and>
         provider_failure e exc \<noteq> HTTPException 400 (lit ''Message cannot be empty.'') \<and>
         (\<forall>m. exc = APIStatusError m \<longrightarrow>
            provider_failure e exc =
              HTTPException 500 (lit ''Anthropic API error: '' @ str_exc e exc)) \<and>
         ((\<forall>m. exc \<noteq> APIStatusError m) \<longrightarrow> provider_failure e exc = Unhandled exc) \<and>
         fst (snd (chat e s req)) = append_user s (session_id req) (message req) \<and>
         history_of (fst (snd (chat e s req))) (session_id req) =
           history_of s (session_id req) @
             [\<lparr>role = lit ''user'', content = Text (message req)\<rparr>]"
proof -
  have outcome: "fst (chat e s req) = Inl (provider_failure e exc) \<and>
      fst (snd (chat e s req)) = append_user s (session_id req) (message req)"
    using assms(3)
  proof
    assume "messages_create e (turn_request s req cb) = Inl exc"
    then show ?thesis by (simp add: chat_first_failed [OF assms(1,2)])
  next
    assume "\<exists>c1. messages_create e (turn_request s req cb) = Inr c1 \<and> tool_uses c1 \<noteq> [] \<and>
                 messages_create e (turn_followup e s req cb c1) = Inl exc"
    then obtain c1 where first: "messages_create e (turn_request s req cb) = Inr c1"
      and some: "tool_uses c1 \<noteq> []"
      and second: "messages_create e (turn_followup e s req cb c1) = Inl exc"
      by blast
    show ?thesis by (simp add: chat_tools [OF assms(1,2) first some] second)
  qed
  have distinct: "provider_failure e exc \<noteq> HTTPException 400 (lit ''Message cannot be empty.'')"
    by (simp add: provider_failure_def split: py_exception.splits)
  have status: "\<forall>m. exc = APIStatusError m \<longrightarrow>
      provider_failure e exc = HTTPException 500 (lit ''Anthropic API error: '' @ str_exc e exc)"
    by (simp add: provider_failure_def)
  have other: "(\<forall>m. exc \<noteq> APIStatusError m) \<longrightarrow> provider_failure e exc = Unhandled exc"
    by (cases exc) (simp_all add: provider_failure_def)
  have kept: "history_of (fst (snd (chat e s req))) (session_id req) =
      history_of s (session_id req) @ [\<lparr>role = lit ''user'', content = Text (message req)\<rparr>]"
    by (simp add: outcome history_of_append_user)
  from outcome distinct status other kept show ?thesis by (intro conjI) simp_all
qed

lemma failing_turn_second:
  "messages_create (sample_env no_hits failing_followup_llm)
     (turn_followup e s (s1_request (lit ''Where is my order 123?'')) [] c1) =
   Inl (APIStatusError (lit ''overloaded''))"
  by (simp add: sample_env_sel failing_followup_llm_def tools_turn_followup)

lemma failing_turn_first:
  "messages_create (sample_env no_hits failing_followup_llm)
     (turn_request s (s1_request (lit ''Where is my order 123?'')) []) = Inr [order_use]"
  by (simp add: sample_env_sel failing_followup_llm_def tools_turn_request)

lemma unreachable_turn_first:
  "messages_create (sample_env no_hits unreachable_llm)
     (turn_request s (s1_request (lit ''Where is my order 123?'')) []) =
   Inl (OtherException (lit ''Connection error.''))"
  by (simp add: sample_env_sel unreachable_llm_def)

theorem provider_failure_keeps_user_message_witness:
  "fst (chat (sample_env no_hits failing_followup_llm) init_sessions
          (s1_request (lit ''Where is my order 123?''))) =
     Inl (HTTPException 500 (lit ''Anthropic API error: '' @ lit ''overloaded'')) \<and>
   history_of (fst (snd (chat (sample_env no_hits failing_followup_llm) init_sessions
          (s1_request (lit ''Where is my order 123?''))))) (lit ''s1'') =
     history_of init_sessions (lit ''s1'') @
       [\<lparr>role = lit ''user'', content = Text (lit ''Where is my order 123?'')\<rparr>] \<and>
   fst (chat (sample_env no_hits unreachable_llm) init_sessions
          (s1_request (lit ''Where is my order 123?''))) =
     Inl (Unhandled (OtherException (lit ''Connection error.''))) \<and>
   history_of (fst (snd (chat (sample_env no_hits unreachable_llm) init_sessions
          (s1_request (lit ''Where is my order 123?''))))) (lit ''s1'') =
     history_of init_sessions (lit ''s1'') @
       [\<lparr>role = lit ''user'', content = Text (lit ''Where is my order 123?'')\<rparr>]"
proof -
  have failing: "messages_create (sample_env no_hits failing_followup_llm)
        (turn_request init_sessions (s1_request (lit ''Where is my order 123?'')) []) =
        Inl (APIStatusError (lit ''overloaded'')) \<or>
      (\<exists>c1. messages_create (sample_env no_hits failing_followup_llm)
          (turn_request init_sessions (s1_request (lit ''Where is my order 123?'')) []) = Inr c1 \<and>
        tool_uses c1 \<noteq> [] \<and>
        messages_create (sample_env no_hits failing_followup_llm)
          (turn_followup (sample_env no_hits failing_followup_llm) init_sessions
            (s1_request (lit ''Where is my order 123?'')) [] c1) =
        Inl (APIStatusError (lit ''overloaded'')))"
    by (rule disjI2) (simp add: failing_turn_first failing_turn_second tool_uses_order)
  note failed = provider_failure_keeps_user_message
    [OF said_order build_context_no_hits failing]
  from failed [THEN conjunct1]
       failed [THEN conjunct2, THEN conjunct2, THEN conjunct1, rule_format, OF refl]
  have "fst (chat (sample_env no_hits failing_followup_llm) init_sessions
          (s1_request (lit ''Where is my order 123?''))) =
     Inl (HTTPException 500 (lit ''Anthropic API error: '' @ lit ''overloaded''))"
    by (simp add: sample_env_sel sample_str_exc_def)
  moreover
  from failed [THEN conjunct2, THEN conjunct2, THEN conjunct2, THEN conjunct2, THEN conjunct2]
  have "history_of (fst (snd (chat (sample_env no_hits failing_followup_llm) init_sessions
          (s1_request (lit ''Where is my order 123?''))))) (lit ''s1'') =
     history_of init_sessions (lit ''s1'') @
       [\<lparr>role = lit ''user'', content = Text (lit ''Where is my order 123?'')\<rparr>]"
    by (simp add: s1_request_sel)
  moreover
  have unreachable: "messages_create (sample_env no_hits unreachable_llm)
        (turn_request init_sessions (s1_request (lit ''Where is my order 123?'')) []) =
        Inl (OtherException (lit ''Connection error.'')) \<or>
      (\<exists>c1. messages_create (sample_env no_hits unreachable_llm)
          (turn_request init_sessions (s1_request (lit ''Where is my order 123?'')) []) = Inr c1 \<and>
        tool_uses c1 \<noteq> [] \<and>
        messages_create (sample_env no_hits unreachable_llm)
          (turn_followup (sample_env no_hits unreachable_llm) init_sessions
            (s1_request (lit ''Where is my order 123?'')) [] c1) =
        Inl (OtherException (lit ''Connection error.'')))"
    by (rule disjI1) (rule unreachable_turn_first)
  note cut = provider_failure_keeps_user_message
    [OF said_order build_context_no_hits unreachable]
  have no_status: "\<forall>m. OtherException (lit ''Connection error.'') \<noteq> APIStatusError m"
    by simp
  from cut [THEN conjunct1]
       cut [THEN conjunct2, THEN conjunct2, THEN conjunct2, THEN conjunct1, THEN mp,
            OF no_status]
  have "fst (chat (sample_env no_hits unreachable_llm) init_sessions
          (s1_request (lit ''Where is my order 123?''))) =
     Inl (Unhandled (OtherException (lit ''Connection error.'')))"
    by simp
  moreover
  from cut [THEN conjunct2, THEN conjunct2, THEN conjunct2, THEN conjunct2, THEN conjunct2]
  have "history_of (fst (snd (chat (sample_env no_hits unreachable_llm) init_sessions
          (s1_request (lit ''Where is my order 123?''))))) (lit ''s1'') =
     history_of init_sessions (lit ''s1'') @
       [\<lparr>role = lit ''user'', content = Text (lit ''Where is my order 123?'')\<rparr>]"
    by (simp add: s1_request_sel)
  ultimately show ?thesis by (intro conjI)
qed

lemma extract_no_texts: "collect_texts cf = [] \<Longrightarrow> extract_text_from_blocks cf = []"
  by (simp add: extract_text_from_blocks_def strip_def)

text \<open>
  C10. Let the response that yields the final answer (the first completion when it holds
  no \<open>tool_use\<close> block, the follow-up otherwise) hold no text block. Then the extracted
  answer is the empty string, the turn still succeeds and returns it, and the history of
  the session grows by the user message and an assistant message whose content is the
  empty string.
\<close>

theorem empty_answer_enters_history:
  assumes "strip (message req) \<noteq> []" and "build_context e (message req) 3 = Inr cb"
      and "(messages_create e (turn_request s req cb) = Inr cf \<and> tool_uses cf = []) \<or>
           (\<exists>c1. messages_create e (turn_request s req cb) = Inr c1 \<and> tool_uses c1 \<noteq> [] \<and>
                 messages_create e (turn_followup e s req cb c1) = Inr cf)"
      and "collect_texts cf = []"
  shows "extract_text_from_blocks cf = [] \<and>
         (\<exists>r. fst (chat e s req) = Inr r \<and> answer r = []) \<and>
         history_of (fst (snd (chat e s req))) (session_id req) =
           history_of s (session_id req) @
             [\<lparr>role = lit ''user'', content = Text (message req)\<rparr>,
              \<lparr>role = lit ''assistant'', content = Text []\<rparr>]"
proof -
  have empty: "extract_text_from_blocks cf = []"
    by (rule extract_no_texts [OF assms(4)])
  have turn: "(\<exists>r. fst (chat e s req) = Inr r \<and> answer r = []) \<and>
      fst (snd (chat e s req)) =
        append_assistant (append_user s (session_id req) (message req)) (session_id req) []"
    using assms(3)
  proof
    assume "messages_create e (turn_request s req cb) = Inr cf \<and> tool_uses cf = []"
    then show ?thesis
      by (simp add: chat_no_tools [OF assms(1,2)] empty)
  next
    assume "\<exists>c1. messages_create e (turn_request s req cb) = Inr c1 \<and> tool_uses c1 \<noteq> [] \<and>
                 messages_create e (turn_followup e s req cb c1) = Inr cf"
    then obtain c1 where first: "messages_create e (turn_request s req cb) = Inr c1"
      and some: "tool_uses c1 \<noteq> []"
      and second: "messages_create e (turn_followup e s req cb c1) = Inr cf"
      by blast
    show ?thesis
      by (simp add: chat_tools [OF assms(1,2) first some] second empty)
  qed
  then have "history_of (fst (snd (chat e s req))) (session_id req) =
      history_of s (session_id req) @
        [\<lparr>role = lit ''user'', content = Text (message req)\<rparr>,
         \<lparr>role = lit ''assistant'', content = Text []\<rparr>]"
    by (simp add: history_of_append_assistant history_of_append_user)
  with empty turn show ?thesis by (intro conjI) simp_all
qed

lemma silent_turn_first:
  "messages_create (sample_env no_hits silent_llm)
     (turn_request s (s1_request (lit ''Where is my order 123?'')) []) = Inr [OtherBlock]"
  by (simp add: sample_env_sel silent_llm_def)

theorem empty_answer_enters_history_witness:
  "extract_text_from_blocks [OtherBlock] = [] \<and>
   (\<exists>r. fst (chat (sample_env no_hits silent_llm) init_sessions
             (s1_request (lit ''Where is my order 123?''))) = Inr r \<and> answer r = []) \<and>
   history_of (fst (snd (chat (sample_env no_hits silent_llm) init_sessions
          (s1_request (lit ''Where is my order 123?''))))) (lit ''s1'') =
     history_of init_sessions (lit ''s1'') @
       [\<lparr>role = lit ''user'', content = Text (lit ''Where is my order 123?'')\<rparr>,
        \<lparr>role = lit ''assistant'', content = Text []\<rparr>]"
proof -
  have final: "(messages_create (sample_env no_hits silent_llm)
        (turn_request init_sessions (s1_request (lit ''Where is my order 123?'')) []) =
        Inr [OtherBlock] \<and> tool_uses [OtherBlock] = []) \<or>
      (\<exists>c1. messages_create (sample_env no_hits silent_llm)
          (turn_request init_sessions (s1_request (lit ''Where is my order 123?'')) []) = Inr c1 \<and>
        tool_uses c1 \<noteq> [] \<and>
        messages_create (sample_env no_hits silent_llm)
          (turn_followup (sample_env no_hits silent_llm) init_sessions
            (s1_request (lit ''Where is my order 123?'')) [] c1) = Inr [OtherBlock])"
    by (rule disjI1) (simp add: silent_turn_first)
  have silent: "collect_texts [OtherBlock] = []"
    by simp
  from empty_answer_enters_history [OF said_order build_context_no_hits final silent]
  show ?thesis by (simp add: s1_request_sel)
qed

section \<open>Argument binding\<close>

lemma map_of_filter_other:
  "q \<noteq> p \<Longrightarrow> map_of (filter (\<lambda>kv. fst kv \<noteq> p) kw) q = map_of kw q"
  by (induction kw) auto

lemma bind_length: "bind ps kw = Some vs \<Longrightarrow> length vs = length ps"
proof (induction ps arbitrary: kw vs)
  case Nil
  then show ?case by (simp split: if_splits)
next
  case (Cons p ps)
  then show ?case by (auto split: option.splits)
qed

lemma bind_keys:
  "distinct ps \<Longrightarrow> (bind ps kw \<noteq> None) = (set (map fst kw) = set ps)"
proof (induction ps arbitrary: kw)
  case Nil
  show ?case by simp
next
  case (Cons p ps)
  have keys: "set (map fst (filter (\<lambda>kv. fst kv \<noteq> p) kw)) = set (map fst kw) - {p}"
    by auto
  from Cons.prems have p: "p \<notin> set ps" and ps: "distinct ps" by simp_all
  show ?case
  proof (cases "map_of kw p")
    case None
    then have "p \<notin> set (map fst kw)" by (simp add: map_of_eq_None_iff)
    with None show ?thesis by auto
  next
    case (Some v)
    then have "p \<in> set (map fst kw)"
      using map_of_eq_None_iff [of kw p] by simp
    then have here: "p \<in> set (map fst kw)" .
    have "(bind (p # ps) kw \<noteq> None) = (bind ps (filter (\<lambda>kv. fst kv \<noteq> p) kw) \<noteq> None)"
      by (simp add: Some)
    also have "\<dots> = (set (map fst kw) - {p} = set ps)"
      by (simp only: Cons.IH [OF ps] keys)
    also have "\<dots> = (set (map fst kw) = set (p # ps))"
      using here p by auto
    finally show ?thesis .
  qed
qed

lemma bind_values:
  "distinct ps \<Longrightarrow> bind ps kw = Some vs \<Longrightarrow> map Some vs = map (map_of kw) ps"
proof (induction ps arbitrary: kw vs)
  case Nil
  then show ?case by (simp split: if_splits)
next
  case (Cons p ps)
  from Cons.prems(1) have p: "p \<notin> set ps" and ps: "distinct ps" by simp_all
  from Cons.prems(2) obtain v ws where v: "map_of kw p = Some v"
    and ws: "bind ps (filter (\<lambda>kv. fst kv \<noteq> p) kw) = Some ws" and vs: "vs = v # ws"
    by (auto split: option.splits)
  have "map Some ws = map (map_of (filter (\<lambda>kv. fst kv \<noteq> p) kw)) ps"
    by (rule Cons.IH [OF ps ws])
  also have "\<dots> = map (map_of kw) ps"
    using p by (intro map_cong refl map_of_filter_other) auto
  finally show ?case by (simp add: vs v)
qed

lemma call_get_order_status_bound:
  "set (map fst kwargs) = {lit ''order_id''} \<Longrightarrow>
   \<exists>v. map_of kwargs (lit ''order_id'') = Some v \<and>
       call_get_order_status t kwargs = Inr (get_order_status t v)"
proof -
  assume keys: "set (map fst kwargs) = {lit ''order_id''}"
  then have "bind [lit ''order_id''] kwargs \<noteq> None"
    using bind_keys [of "[lit ''order_id'']" kwargs] by (simp del: bind.simps)
  then obtain vs where vs: "bind [lit ''order_id''] kwargs = Some vs" by blast
  from bind_length [OF vs] obtain v where v: "vs = [v]"
    by (cases vs) auto
  from bind_values [OF _ vs] have "map_of kwargs (lit ''order_id'') = Some v"
    by (simp add: v)
  then show ?thesis
    by (simp add: call_get_order_status_def vs v del: bind.simps)
qed

lemma call_get_order_status_unbound:
  "set (map fst kwargs) \<noteq> {lit ''order_id''} \<Longrightarrow>
   call_get_order_status t kwargs =
     Inl (TypeError_call (lit ''get_order_status'') (map fst kwargs))"
proof -
  assume "set (map fst kwargs) \<noteq> {lit ''order_id''}"
  then have "bind [lit ''order_id''] kwargs = None"
    using bind_keys [of "[lit ''order_id'']" kwargs] by (simp del: bind.simps)
  then show ?thesis by (simp add: call_get_order_status_def del: bind.simps)
qed

lemma recipient_message_distinct: "lit ''recipient_email'' \<noteq> lit ''message''"
  by (simp add: lit_def)

lemma call_send_email_bound:
  "set (map fst kwargs) = {lit ''recipient_email'', lit ''message''} \<Longrightarrow>
   \<exists>r m. map_of kwargs (lit ''recipient_email'') = Some r \<and>
         map_of kwargs (lit ''message'') = Some m \<and>
         call_send_email t kwargs = send_email r m"
proof -
  assume keys: "set (map fst kwargs) = {lit ''recipient_email'', lit ''message''}"
  have d: "distinct [lit ''recipient_email'', lit ''message'']"
    by (simp add: recipient_message_distinct)
  from keys have "bind [lit ''recipient_email'', lit ''message''] kwargs \<noteq> None"
    using bind_keys [OF d, of kwargs] by (simp del: bind.simps)
  then obtain vs where vs: "bind [lit ''recipient_email'', lit ''message''] kwargs = Some vs"
    by blast
  from bind_length [OF vs] obtain r m where v: "vs = [r, m]"
    by (cases vs; cases "tl vs") auto
  from bind_values [OF d vs]
  have "map_of kwargs (lit ''recipient_email'') = Some r" "map_of kwargs (lit ''message'') = Some m"
    by (simp_all add: v)
  then show ?thesis
    by (simp add: call_send_email_def vs v del: bind.simps)
qed

lemma call_send_email_unbound:
  "set (map fst kwargs) \<noteq> {lit ''recipient_email'', lit ''message''} \<Longrightarrow>
   call_send_email t kwargs = Inl (TypeError_call (lit ''send_email'') (map fst kwargs))"
proof -
  assume keys: "set (map fst kwargs) \<noteq> {lit ''recipient_email'', lit ''message''}"
  have d: "distinct [lit ''recipient_email'', lit ''message'']"
    by (simp add: recipient_message_distinct)
  from keys have "bind [lit ''recipient_email'', lit ''message''] kwargs = None"
    using bind_keys [OF d, of kwargs] by (simp del: bind.simps)
  then show ?thesis by (simp add: call_send_email_def del: bind.simps)
qed

lemma send_email_no_call_error: "send_email r m \<noteq> Inl (TypeError_call f ks)"
  by (simp add: send_email_def split: json.splits)

lemma tool_names_distinct: "lit ''get_order_status'' \<noteq> lit ''send_email''"
  by (simp add: lit_def)

lemma execute_get_order_status:
  "execute_tool t (lit ''get_order_status'') arguments = call_get_order_status t arguments"
  by (simp add: execute_tool_def TOOL_FUNCTIONS_def)

lemma execute_send_email:
  "execute_tool t (lit ''send_email'') arguments = call_send_email t arguments"
  using tool_names_distinct by (simp add: execute_tool_def TOOL_FUNCTIONS_def)

lemma get_tool_specs_cases:
  assumes "spec \<in> set get_tool_specs"
  shows "(name spec = lit ''get_order_status'' \<and>
          (\<forall>arguments. keys_match (input_schema spec) arguments \<longleftrightarrow>
             set (map fst arguments) = {lit ''order_id''})) \<or>
         (name spec = lit ''send_email'' \<and>
          (\<forall>arguments. keys_match (input_schema spec) arguments \<longleftrightarrow>
             set (map fst arguments) = {lit ''recipient_email'', lit ''message''}))"
proof -
  from assms consider "spec = get_tool_specs ! 0" | "spec = get_tool_specs ! 1"
    by (auto simp add: get_tool_specs_def)
  then show ?thesis
  proof cases
    case 1
    have "name spec = lit ''get_order_status''"
      by (simp add: 1 get_tool_specs_def)
    moreover have "keys_match (input_schema spec) arguments \<longleftrightarrow>
        set (map fst arguments) = {lit ''order_id''}" for arguments
      by (auto simp add: 1 get_tool_specs_def keys_match_def)
    ultimately show ?thesis by blast
  next
    case 2
    have "name spec = lit ''send_email''"
      by (simp add: 2 get_tool_specs_def)
    moreover have "keys_match (input_schema spec) arguments \<longleftrightarrow>
        set (map fst arguments) = {lit ''recipient_email'', lit ''message''}" for arguments
      by (auto simp add: 2 get_tool_specs_def keys_match_def)
    ultimately show ?thesis by blast
  qed
qed

text \<open>
  C2. For every tool of \<open>get_tool_specs\<close> the name is registered, and the keys of the
  arguments are checked against the declared schema before the body of the tool runs: the
  call is rejected with the \<open>TypeError\<close> of the keyword binding exactly when the keys do
  not match the schema (a required key is missing, or a key is not declared). The
  orchestrator turns that exception into the error result \<open>{"error": str(exc)}\<close>. With
  matching keys the tool's function runs on the values of its parameters.
\<close>

theorem execute_tool_checks_argument_keys:
  assumes "spec \<in> set get_tool_specs"
  shows "map_of TOOL_FUNCTIONS (name spec) \<noteq> None \<and>
         (execute_tool t (name spec) arguments =
            Inl (TypeError_call (name spec) (map fst arguments)) \<longleftrightarrow>
          \<not> keys_match (input_schema spec) arguments) \<and>
         (\<not> keys_match (input_schema spec) arguments \<longrightarrow>
            try_execute_tool e (name spec) arguments =
              JDict [(lit ''error'',
                      JStr (str_exc e (TypeError_call (name spec) (map fst arguments))))]) \<and>
         (keys_match (input_schema spec) arguments \<and> name spec = lit ''get_order_status'' \<longrightarrow>
            (\<exists>v. map_of arguments (lit ''order_id'') = Some v \<and>
                 execute_tool t (name spec) arguments = Inr (get_order_status t v))) \<and>
         (keys_match (input_schema spec) arguments \<and> name spec = lit ''send_email'' \<longrightarrow>
            (\<exists>r m. map_of arguments (lit ''recipient_email'') = Some r \<and>
                   map_of arguments (lit ''message'') = Some m \<and>
                   execute_tool t (name spec) arguments = send_email r m))"
proof -
  from get_tool_specs_cases [OF assms]
  consider
    (order) "name spec = lit ''get_order_status''"
      "\<forall>arguments. keys_match (input_schema spec) arguments \<longleftrightarrow>
         set (map fst arguments) = {lit ''order_id''}"
  | (email) "name spec = lit ''send_email''"
      "\<forall>arguments. keys_match (input_schema spec) arguments \<longleftrightarrow>
         set (map fst arguments) = {lit ''recipient_email'', lit ''message''}"
    by blast
  then show ?thesis
  proof cases
    case order
    have registered: "map_of TOOL_FUNCTIONS (name spec) \<noteq> None"
      by (simp add: order(1) TOOL_FUNCTIONS_def)
    have rejected: "execute_tool t' (name spec) arguments =
        Inl (TypeError_call (name spec) (map fst arguments))"
      if "\<not> keys_match (input_schema spec) arguments" for t'
      using that order(2)
      by (simp add: order(1) execute_get_order_status call_get_order_status_unbound)
    have bound: "\<exists>v. map_of arguments (lit ''order_id'') = Some v \<and>
        execute_tool t (name spec) arguments = Inr (get_order_status t v)"
      if "keys_match (input_schema spec) arguments"
      using that order(2) call_get_order_status_bound [of arguments t]
      by (simp add: order(1) execute_get_order_status)
    have iff: "execute_tool t (name spec) arguments =
        Inl (TypeError_call (name spec) (map fst arguments)) \<longleftrightarrow>
        \<not> keys_match (input_schema spec) arguments"
      using rejected [of t] bound by auto
    have caught: "\<not> keys_match (input_schema spec) arguments \<longrightarrow>
        try_execute_tool e (name spec) arguments =
          JDict [(lit ''error'',
                  JStr (str_exc e (TypeError_call (name spec) (map fst arguments))))]"
      using rejected [of "today e"] by (simp add: try_execute_tool_def)
    from registered iff caught bound show ?thesis
      using order(1) tool_names_distinct by simp
  next
    case email
    have registered: "map_of TOOL_FUNCTIONS (name spec) \<noteq> None"
      by (simp add: email(1) TOOL_FUNCTIONS_def)
    have rejected: "execute_tool t' (name spec) arguments =
        Inl (TypeError_call (name spec) (map fst arguments))"
      if "\<not> keys_match (input_schema spec) arguments" for t'
      using that email(2)
      by (simp add: email(1) execute_send_email call_send_email_unbound)
    have bound: "\<exists>r m. map_of arguments (lit ''recipient_email'') = Some r \<and>
        map_of arguments (lit ''message'') = Some m \<and>
        execute_tool t (name spec) arguments = send_email r m"
      if "keys_match (input_schema spec) arguments"
      using that email(2) call_send_email_bound [of arguments t]
      by (simp add: email(1) execute_send_email)
    have iff: "execute_tool t (name spec) arguments =
        Inl (TypeError_call (name spec) (map fst arguments)) \<longleftrightarrow>
        \<not> keys_match (input_schema spec) arguments"
      using rejected [of t] bound send_email_no_call_error [THEN not_sym] by auto
    have caught: "\<not> keys_match (input_schema spec) arguments \<longrightarrow>
        try_execute_tool e (name spec) arguments =
          JDict [(lit ''error'',
                  JStr (str_exc e (TypeError_call (name spec) (map fst arguments))))]"
      using rejected [of "today e"] by (simp add: try_execute_tool_def)
    from registered iff caught bound show ?thesis
      using email(1) tool_names_distinct by simp
  qed
qed

lemma order_spec:
  "get_tool_specs ! 0 \<in> set get_tool_specs"
  "name (get_tool_specs ! 0) = lit ''get_order_status''"
  "\<not> keys_match (input_schema (get_tool_specs ! 0)) [(lit ''id'', JStr (lit ''123''))]"
  "keys_match (input_schema (get_tool_specs ! 0)) [(lit ''order_id'', JStr (lit ''123''))]"
  by (simp_all add: get_tool_specs_def keys_match_def lit_def)

lemma email_spec:
  "get_tool_specs ! 1 \<in> set get_tool_specs"
  "name (get_tool_specs ! 1) = lit ''send_email''"
  "keys_match (input_schema (get_tool_specs ! 1))
     [(lit ''recipient_email'', JStr (lit ''a@b.c'')), (lit ''message'', JStr (lit ''Hi''))]"
  by (simp_all add: get_tool_specs_def keys_match_def lit_def)

theorem execute_tool_checks_argument_keys_witness:
  "execute_tool (lit ''2025-07-01'') (lit ''get_order_status'') [(lit ''id'', JStr (lit ''123''))] =
     Inl (TypeError_call (lit ''get_order_status'') [lit ''id'']) \<and>
   try_execute_tool (sample_env no_hits text_llm) (lit ''get_order_status'')
       [(lit ''id'', JStr (lit ''123''))] =
     JDict [(lit ''error'',
             JStr (sample_str_exc (TypeError_call (lit ''get_order_status'') [lit ''id''])))] \<and>
   (\<exists>v. map_of [(lit ''order_id'', JStr (lit ''123''))] (lit ''order_id'') = Some v \<and>
        execute_tool (lit ''2025-07-01'') (lit ''get_order_status'')
          [(lit ''order_id'', JStr (lit ''123''))] =
        Inr (get_order_status (lit ''2025-07-01'') v)) \<and>
   (\<exists>r m. map_of [(lit ''recipient_email'', JStr (lit ''a@b.c'')), (lit ''message'', JStr (lit ''Hi''))]
            (lit ''recipient_email'') = Some r \<and>
          map_of [(lit ''recipient_email'', JStr (lit ''a@b.c'')), (lit ''message'', JStr (lit ''Hi''))]
            (lit ''message'') = Some m \<and>
          execute_tool (lit ''2025-07-01'') (lit ''send_email'')
            [(lit ''recipient_email'', JStr (lit ''a@b.c'')), (lit ''message'', JStr (lit ''Hi''))] =
          send_email r m)"
proof -
  note wrong = execute_tool_checks_argument_keys
    [OF order_spec(1), of "lit ''2025-07-01''" "[(lit ''id'', JStr (lit ''123''))]"
        "sample_env no_hits text_llm"]
  note right = execute_tool_checks_argument_keys
    [OF order_spec(1), of "lit ''2025-07-01''" "[(lit ''order_id'', JStr (lit ''123''))]"
        "sample_env no_hits text_llm"]
  note mail = execute_tool_checks_argument_keys
    [OF email_spec(1), of "lit ''2025-07-01''"
        "[(lit ''recipient_email'', JStr (lit ''a@b.c'')), (lit ''message'', JStr (lit ''Hi''))]"
        "sample_env no_hits text_llm"]
  from wrong [THEN conjunct2, THEN conjunct1, THEN iffD2, OF order_spec(3)]
  have "execute_tool (lit ''2025-07-01'') (lit ''get_order_status'')
      [(lit ''id'', JStr (lit ''123''))] =
     Inl (TypeError_call (lit ''get_order_status'') [lit ''id''])"
    by (simp add: order_spec(2))
  moreover
  from wrong [THEN conjunct2, THEN conjunct2, THEN conjunct1, THEN mp, OF order_spec(3)]
  have "try_execute_tool (sample_env no_hits text_llm) (lit ''get_order_status'')
       [(lit ''id'', JStr (lit ''123''))] =
     JDict [(lit ''error'',
             JStr (sample_str_exc (TypeError_call (lit ''get_order_status'') [lit ''id''])))]"
    by (simp add: order_spec(2) sample_env_sel)
  moreover
  from right [THEN conjunct2, THEN conjunct2, THEN conjunct2, THEN conjunct1, THEN mp,
      OF conjI, OF order_spec(4) order_spec(2)]
  have "\<exists>v. map_of [(lit ''order_id'', JStr (lit ''123''))] (lit ''order_id'') = Some v \<and>
        execute_tool (lit ''2025-07-01'') (lit ''get_order_status'')
          [(lit ''order_id'', JStr (lit ''123''))] =
        Inr (get_order_status (lit ''2025-07-01'') v)"
    by (simp only: order_spec(2))
  moreover
  from mail [THEN conjunct2, THEN conjunct2, THEN conjunct2, THEN conjunct2, THEN mp,
      OF conjI, OF email_spec(3) email_spec(2)]
  have "\<exists>r m. map_of [(lit ''recipient_email'', JStr (lit ''a@b.c'')), (lit ''message'', JStr (lit ''Hi''))]
            (lit ''recipient_email'') = Some r \<and>
          map_of [(lit ''recipient_email'', JStr (lit ''a@b.c'')), (lit ''message'', JStr (lit ''Hi''))]
            (lit ''message'') = Some m \<and>
          execute_tool (lit ''2025-07-01'') (lit ''send_email'')
            [(lit ''recipient_email'', JStr (lit ''a@b.c'')), (lit ''message'', JStr (lit ''Hi''))] =
          send_email r m"
    by (simp only: email_spec(2))
  ultimately show ?thesis by (intro conjI)
qed

end
